theory Spec2Isabelle
  imports Main "HOL-Library.Sublist"
begin

section \<open>Values of the Python runtime used by send\_email\_reminders.py\<close>

text \<open>
  The script reads its tenants with \<^verbatim>\<open>json.loads\<close>, so a tenant is any JSON value as
  Python represents it: \<^verbatim>\<open>None\<close>, \<^verbatim>\<open>bool\<close>, \<^verbatim>\<open>int\<close> (unbounded), \<^verbatim>\<open>float\<close> (binary64),
  \<^verbatim>\<open>str\<close>, \<^verbatim>\<open>list\<close> and \<^verbatim>\<open>dict\<close>. A dict is kept as the list of its items in insertion
  order; a key is looked up with \<open>map_of\<close>.

  A binary64 float is either a finite value \<open>(-1)^s * m * 2^e\<close>, an infinity or a NaN.
\<close>

datatype pyfloat = Finite bool nat int | Infinity bool | NaN

datatype json =
    JNull
  | JBool bool
  | JInt int
  | JFloat pyfloat
  | JStr string
  | JArr "json list"
  | JObj "(string \<times> json) list"

text \<open>Exceptions are values: the class and the text that \<^verbatim>\<open>str(e)\<close> gives.\<close>

datatype exc_class =
  AttributeError | TypeError | KeyError | ValueError | OverflowError | RecursionError
  | SMTPException | OtherException

datatype py_exc = PyExc exc_class string

fun exc_str :: "py_exc \<Rightarrow> string" where
  "exc_str (PyExc c m) = m"

fun exc_cls :: "py_exc \<Rightarrow> exc_class" where
  "exc_cls (PyExc c m) = c"

fun type_name :: "json \<Rightarrow> string" where
  "type_name JNull = ''NoneType''"
| "type_name (JBool b) = ''bool''"
| "type_name (JInt n) = ''int''"
| "type_name (JFloat f) = ''float''"
| "type_name (JStr s) = ''str''"
| "type_name (JArr xs) = ''list''"
| "type_name (JObj kvs) = ''dict''"

subsection \<open>Operations on a tenant value\<close>

text \<open>\<^verbatim>\<open>field in tenant\<close>: key membership for a dict, element membership for a list, the
  substring test for a str, and a TypeError for every other value.\<close>

fun py_contains :: "json \<Rightarrow> string \<Rightarrow> py_exc + bool" where
  "py_contains (JObj kvs) field = Inr (field \<in> set (map fst kvs))"
| "py_contains (JArr xs) field = Inr (JStr field \<in> set xs)"
| "py_contains (JStr s) field = Inr (sublist field s)"
| "py_contains v field =
     Inl (PyExc TypeError (''argument of type '' @ [CHR 0x27] @ type_name v @ [CHR 0x27] @ '' is not iterable''))"

text \<open>\<^verbatim>\<open>tenant.get(key, default)\<close>: only a dict has the method.\<close>

definition dict_get :: "(string \<times> json) list \<Rightarrow> string \<Rightarrow> json \<Rightarrow> json" where
  "dict_get kvs key dflt = (case map_of kvs key of Some v \<Rightarrow> v | None \<Rightarrow> dflt)"

fun py_get :: "json \<Rightarrow> string \<Rightarrow> json \<Rightarrow> py_exc + json" where
  "py_get (JObj kvs) key dflt = Inr (dict_get kvs key dflt)"
| "py_get v key dflt =
     Inl (PyExc AttributeError ([CHR 0x27] @ type_name v @ [CHR 0x27] @ '' object has no attribute '' @ [CHR 0x27] @ ''get'' @ [CHR 0x27]))"

text \<open>\<^verbatim>\<open>tenant[key]\<close> with a string key.\<close>

fun py_getitem :: "json \<Rightarrow> string \<Rightarrow> py_exc + json" where
  "py_getitem (JObj kvs) key =
     (case map_of kvs key of Some v \<Rightarrow> Inr v | None \<Rightarrow> Inl (PyExc KeyError ([CHR 0x27] @ key @ [CHR 0x27])))"
| "py_getitem (JArr xs) key = Inl (PyExc TypeError ''list indices must be integers or slices, not str'')"
| "py_getitem (JStr s) key =
     Inl (PyExc TypeError (''string indices must be integers, not '' @ [CHR 0x27] @ ''str'' @ [CHR 0x27]))"
| "py_getitem v key =
     Inl (PyExc TypeError ([CHR 0x27] @ type_name v @ [CHR 0x27] @ '' object is not subscriptable''))"

text \<open>\<^verbatim>\<open>', '.join(missing_fields)\<close>.\<close>

fun join :: "string \<Rightarrow> string list \<Rightarrow> string" where
  "join sep [] = []"
| "join sep [x] = x"
| "join sep (x # y # ys) = x @ sep @ join sep (y # ys)"

subsection \<open>Decimal digits\<close>

definition is_digit :: "char \<Rightarrow> bool" where
  "is_digit c = (c \<in> set ''0123456789'')"

definition digit_val :: "char \<Rightarrow> nat" where
  "digit_val c = of_char c - 48"

definition nat_of_digits :: "string \<Rightarrow> nat" where
  "nat_of_digits ds = foldl (\<lambda>acc c. 10 * acc + digit_val c) 0 ds"

fun show_nat :: "nat \<Rightarrow> string" where
  "show_nat n =
     (if n < 10 then [''0123456789'' ! n]
      else show_nat (n div 10) @ [''0123456789'' ! (n mod 10)])"

declare show_nat.simps [simp del]

text \<open>
  A character of a text is a code point below 256. Before \<^verbatim>\<open>int()\<close> and \<^verbatim>\<open>float()\<close> read a str
  that is not pure ASCII, CPython rewrites it (\<^verbatim>\<open>_PyUnicode_TransformDecimalAndSpaceToASCII\<close>):
  a code point below 127 stays, Unicode whitespace becomes a space, a Unicode decimal digit
  becomes its ASCII digit, and at any other code point the text ends with a question mark.
  Below 256 the Unicode whitespace from 127 on is U+0085 and U+00A0, and there is no decimal
  digit from 127 on.
\<close>

definition is_ascii :: "string \<Rightarrow> bool" where
  "is_ascii s = list_all (\<lambda>c. of_char c < (128::nat)) s"

fun transform_decimal_and_space :: "string \<Rightarrow> string" where
  "transform_decimal_and_space [] = []"
| "transform_decimal_and_space (c # cs) =
     (if of_char c < (127::nat) then c # transform_decimal_and_space cs
      else if c = CHR 0x85 \<or> c = CHR 0xA0 then CHR '' '' # transform_decimal_and_space cs
      else ''?'')"

definition to_ascii :: "string \<Rightarrow> string" where
  "to_ascii s = (if is_ascii s then s else transform_decimal_and_space s)"

text \<open>The C locale's \<^verbatim>\<open>isspace\<close> (\<^verbatim>\<open>Py_ISSPACE\<close>), which \<^verbatim>\<open>int()\<close> and \<^verbatim>\<open>float()\<close> strip from both
  ends of the rewritten text.\<close>

definition py_isspace :: "char \<Rightarrow> bool" where
  "py_isspace c = (c \<in> set [CHR '' '', CHR 0x09, CHR 0x0A, CHR 0x0B, CHR 0x0C, CHR 0x0D])"

definition strip :: "string \<Rightarrow> string" where
  "strip s = rev (dropWhile py_isspace (rev (dropWhile py_isspace s)))"

text \<open>Underscores in a numeric literal: each one stands between two digits. The result is
  the text without them, or None where one is misplaced.\<close>

fun drop_underscores :: "char \<Rightarrow> string \<Rightarrow> string option" where
  "drop_underscores prev [] = (if prev = CHR ''_'' then None else Some [])"
| "drop_underscores prev (c # cs) =
     (if c = CHR ''_'' then
        (if is_digit prev then drop_underscores c cs else None)
      else if prev = CHR ''_'' \<and> \<not> is_digit c then None
      else map_option ((#) c) (drop_underscores c cs))"

fun split_sign :: "string \<Rightarrow> bool \<times> string" where
  "split_sign (c # cs) =
     (if c = CHR ''-'' then (True, cs) else if c = CHR ''+'' then (False, cs) else (False, c # cs))"
| "split_sign [] = (False, [])"

subsection \<open>\<^verbatim>\<open>int(SMTP_PORT)\<close>\<close>

text \<open>\<^verbatim>\<open>sys.get_int_max_str_digits()\<close>: the default, which the script does not change.\<close>

definition int_max_str_digits :: nat where
  "int_max_str_digits = 4300"

text \<open>\<^verbatim>\<open>int(s)\<close> for a str in base 10: surrounding whitespace, a sign, digits with single
  underscores between them, and no more digits than the limit (leading zeros count,
  underscores do not). None stands for the ValueError.\<close>

definition py_int :: "string \<Rightarrow> int option" where
  "py_int s =
     (case split_sign (strip (to_ascii s)) of
        (neg, body) \<Rightarrow>
          (case drop_underscores CHR 0x00 body of
             None \<Rightarrow> None
           | Some ds \<Rightarrow>
               if ds \<noteq> [] \<and> list_all is_digit ds \<and> length ds \<le> int_max_str_digits
               then Some (if neg then - int (nat_of_digits ds) else int (nat_of_digits ds))
               else None))"

subsection \<open>\<^verbatim>\<open>float(tenant['payment_amount'])\<close> and the format \<^verbatim>\<open>.2f\<close>\<close>

fun bit_length :: "nat \<Rightarrow> nat" where
  "bit_length n = (if n = 0 then 0 else Suc (bit_length (n div 2)))"

declare bit_length.simps [simp del]

text \<open>The integer nearest to \<open>n / d\<close>, a tie going to the even one.\<close>

definition round_half_even :: "nat \<Rightarrow> nat \<Rightarrow> nat" where
  "round_half_even n d =
     (if 2 * (n mod d) < d then n div d
      else if d < 2 * (n mod d) then n div d + 1
      else if even (n div d) then n div d else n div d + 1)"

text \<open>\<open>2^k \<le> n / d\<close>, for an integer k of either sign.\<close>

definition ratio_ge_pow2 :: "nat \<Rightarrow> nat \<Rightarrow> int \<Rightarrow> bool" where
  "ratio_ge_pow2 n d k = (if 0 \<le> k then d * 2 ^ nat k \<le> n else d \<le> n * 2 ^ nat (- k))"

text \<open>\<open>\<lfloor>log\<^sub>2 (n / d)\<rfloor>\<close> for \<open>n, d > 0\<close>: the difference of the bit lengths, or one less.\<close>

definition floor_log2_ratio :: "nat \<Rightarrow> nat \<Rightarrow> int" where
  "floor_log2_ratio n d =
     (if ratio_ge_pow2 n d (int (bit_length n) - int (bit_length d))
      then int (bit_length n) - int (bit_length d)
      else int (bit_length n) - int (bit_length d) - 1)"

text \<open>The binary64 value nearest to \<open>n / d\<close> (\<open>d > 0\<close>), ties to even: 53 bits of mantissa
  from \<open>2^-1022\<close> on, multiples of \<open>2^-1074\<close> below, and an infinity from \<open>2^1024\<close> on.\<close>

definition ulp_exponent :: "nat \<Rightarrow> nat \<Rightarrow> int" where
  "ulp_exponent n d = max (floor_log2_ratio n d - 52) (- 1074)"

definition scaled_mantissa :: "nat \<Rightarrow> nat \<Rightarrow> int \<Rightarrow> nat" where
  "scaled_mantissa n d e = round_half_even (n * 2 ^ nat (- e)) (d * 2 ^ nat e)"

definition make_double :: "bool \<Rightarrow> nat \<Rightarrow> int \<Rightarrow> pyfloat" where
  "make_double s m e = (if 0 \<le> e \<and> 2 ^ 1024 \<le> m * 2 ^ nat e then Infinity s else Finite s m e)"

definition double_of_ratio :: "bool \<Rightarrow> nat \<Rightarrow> nat \<Rightarrow> pyfloat" where
  "double_of_ratio s n d =
     (if n = 0 then Finite s 0 0
      else make_double s (scaled_mantissa n d (ulp_exponent n d)) (ulp_exponent n d))"

text \<open>An unsigned decimal literal \<^verbatim>\<open>digits [. digits] [e [sign] digits]\<close> with at least one
  digit before the exponent: its digits as a number and its decimal exponent.\<close>

definition frac_part :: "string \<Rightarrow> string" where
  "frac_part r = (case r of c # t \<Rightarrow> if c = CHR ''.'' then takeWhile is_digit t else [] | [] \<Rightarrow> [])"

definition after_frac :: "string \<Rightarrow> string" where
  "after_frac r = (case r of c # t \<Rightarrow> if c = CHR ''.'' then dropWhile is_digit t else r | [] \<Rightarrow> [])"

definition signed_digits :: "bool \<times> string \<Rightarrow> int option" where
  "signed_digits p =
     (if snd p \<noteq> [] \<and> list_all is_digit (snd p)
      then Some (if fst p then - int (nat_of_digits (snd p)) else int (nat_of_digits (snd p)))
      else None)"

definition parse_exponent :: "string \<Rightarrow> int option" where
  "parse_exponent r =
     (case r of
        [] \<Rightarrow> Some 0
      | c # t \<Rightarrow> if c = CHR ''e'' \<or> c = CHR ''E'' then signed_digits (split_sign t) else None)"

definition parse_decimal :: "string \<Rightarrow> (nat \<times> int) option" where
  "parse_decimal s =
     (if takeWhile is_digit s = [] \<and> frac_part (dropWhile is_digit s) = [] then None
      else
        (case parse_exponent (after_frac (dropWhile is_digit s)) of
           None \<Rightarrow> None
         | Some x \<Rightarrow>
             Some (nat_of_digits (takeWhile is_digit s @ frac_part (dropWhile is_digit s)),
                   x - int (length (frac_part (dropWhile is_digit s))))))"

definition lower :: "string \<Rightarrow> string" where
  "lower s =
     map (\<lambda>c. case map_of (zip ''ABCDEFGHIJKLMNOPQRSTUVWXYZ'' ''abcdefghijklmnopqrstuvwxyz'') c of
                Some l \<Rightarrow> l
              | None \<Rightarrow> c) s"

definition double_of_decimal :: "bool \<Rightarrow> nat \<times> int \<Rightarrow> pyfloat" where
  "double_of_decimal neg p =
     (if 0 \<le> snd p then double_of_ratio neg (fst p * 10 ^ nat (snd p)) 1
      else double_of_ratio neg (fst p) (10 ^ nat (- snd p)))"

text \<open>The text after stripping, split into sign and body: \<^verbatim>\<open>inf\<close>, \<^verbatim>\<open>infinity\<close> or \<^verbatim>\<open>nan\<close> in
  any case, or a decimal literal.\<close>

definition float_of_signed :: "bool \<times> string \<Rightarrow> pyfloat option" where
  "float_of_signed p =
     (if lower (snd p) = ''inf'' \<or> lower (snd p) = ''infinity'' then Some (Infinity (fst p))
      else if lower (snd p) = ''nan'' then Some NaN
      else map_option (double_of_decimal (fst p)) (parse_decimal (snd p)))"

text \<open>\<^verbatim>\<open>float(s)\<close> for a str: the text rewritten to ASCII, underscores checked on the whole
  of it, whitespace stripped, then the signed literal. None stands for the ValueError.\<close>

definition float_of_string :: "string \<Rightarrow> pyfloat option" where
  "float_of_string s =
     (case drop_underscores CHR 0x00 (to_ascii s) of
        None \<Rightarrow> None
      | Some s1 \<Rightarrow> float_of_signed (split_sign (strip s1)))"

text \<open>\<^verbatim>\<open>float(n)\<close> for an int: the nearest binary64 value, or OverflowError.\<close>

definition float_of_int :: "int \<Rightarrow> py_exc + pyfloat" where
  "float_of_int n =
     (case double_of_ratio (n < 0) (nat \<bar>n\<bar>) 1 of
        Infinity s \<Rightarrow> Inl (PyExc OverflowError ''int too large to convert to float'')
      | Finite s m e \<Rightarrow> Inr (Finite s m e)
      | NaN \<Rightarrow> Inr NaN)"

text \<open>\<^verbatim>\<open>float(v)\<close> for a JSON value. The message of the ValueError quotes the text with
  \<^verbatim>\<open>repr\<close>, which is a parameter here.\<close>

fun py_float :: "(json \<Rightarrow> string) \<Rightarrow> json \<Rightarrow> py_exc + pyfloat" where
  "py_float repr (JStr s) =
     (case float_of_string s of
        Some f \<Rightarrow> Inr f
      | None \<Rightarrow> Inl (PyExc ValueError (''could not convert string to float: '' @ repr (JStr s))))"
| "py_float repr (JFloat f) = Inr f"
| "py_float repr (JBool b) = Inr (if b then Finite False 1 0 else Finite False 0 0)"
| "py_float repr (JInt n) = float_of_int n"
| "py_float repr v =
     Inl (PyExc TypeError (''float() argument must be a string or a real number, not ''
            @ [CHR 0x27] @ type_name v @ [CHR 0x27]))"

text \<open>\<^verbatim>\<open>f"{payment_amount:.2f}"\<close>: the exact binary value rounded to hundredths, ties to
  even, then printed with two decimals.\<close>

definition hundredths :: "nat \<Rightarrow> int \<Rightarrow> nat" where
  "hundredths m e =
     (if 0 \<le> e then m * 100 * 2 ^ nat e else round_half_even (m * 100) (2 ^ nat (- e)))"

definition show_hundredths :: "nat \<Rightarrow> string" where
  "show_hundredths c =
     show_nat (c div 100) @ ''.'' @ [''0123456789'' ! (c mod 100 div 10), ''0123456789'' ! (c mod 10)]"

fun format_2f :: "pyfloat \<Rightarrow> string" where
  "format_2f (Finite s m e) = (if s then ''-'' else []) @ show_hundredths (hundredths m e)"
| "format_2f (Infinity s) = (if s then ''-inf'' else ''inf'')"
| "format_2f NaN = ''nan''"

section \<open>The program\<close>

text \<open>
  The model follows the script statement by statement. What it leaves out: the construction
  of the MIME message (\<^verbatim>\<open>MIMEMultipart\<close>, \<^verbatim>\<open>MIMEText\<close>, \<^verbatim>\<open>MIMEApplication\<close>) is taken not to raise;
  an exception of the SMTP layer is an \<^verbatim>\<open>Exception\<close> (not a \<^verbatim>\<open>KeyboardInterrupt\<close>); a text is a
  list of characters.
\<close>

subsection \<open>Log lines, failure records, SMTP sessions\<close>

text \<open>
  A log line is kept as its level and the values its text is formatted from. One constructor
  stands for each call of \<^verbatim>\<open>logging\<close> in the script.
\<close>

datatype level = INFO | WARNING | ERROR

datatype log_event =
    ScriptStarted
  | MissingSmtpVars "string list"
  | TenantsMissing
  | TenantsNotArray
  | TenantsInvalidJson
  | LoadedTenants "json list"
  | InvalidSmtpPort string
  | MissingFields "string list" json
  | InvalidPaymentAmount json json
  | ReminderSent json json
  | SmtpErrorTenant json string
  | UnexpectedErrorTenant json py_exc
  | LogFileNotFound
  | LogEmailSent
  | SmtpErrorLogEmail string
  | UnexpectedErrorLogEmail string
  | NoTenantsFound
  | ScriptCompleted

type_synonym log_entry = "level \<times> log_event"

text \<open>An entry of \<^verbatim>\<open>failed_tenants\<close>: the dict with keys \<^verbatim>\<open>tenant\<close>, \<^verbatim>\<open>email\<close>, \<^verbatim>\<open>reason\<close>.\<close>

record failure_record =
  rec_tenant :: json
  rec_email :: json
  rec_reason :: string

text \<open>One \<^verbatim>\<open>with smtplib.SMTP(...) as server\<close> block: connect, \<^verbatim>\<open>starttls\<close>, \<^verbatim>\<open>login\<close>,
  \<^verbatim>\<open>sendmail\<close>. The attachment is the content of the log file, when the message has one.\<close>

record smtp_request =
  server :: string
  port :: int
  login_user :: string
  login_password :: string
  mail_from :: string
  rcpt_to :: json
  subject :: string
  body :: string
  attachment :: "log_entry list option"

text \<open>What the block does: it returns, raises \<^verbatim>\<open>smtplib.SMTPException\<close>, or raises another
  exception (a refused connection is an \<^verbatim>\<open>OSError\<close>); the string is \<^verbatim>\<open>str\<close> of the exception.\<close>

datatype smtp_result = Sent | SMTPError string | OtherError string

text \<open>
  What \<^verbatim>\<open>json.loads\<close> does with a text: it returns the value, raises \<^verbatim>\<open>json.JSONDecodeError\<close>,
  or raises another exception: \<^verbatim>\<open>RecursionError\<close> on a text nested too deep, \<^verbatim>\<open>ValueError\<close> on an
  integer literal with more digits than the limit of \<^verbatim>\<open>int\<close>.
\<close>

datatype json_result = Parsed json | JSONDecodeError string | OtherRaise py_exc

text \<open>
  What the script does not define itself is a parameter: \<^verbatim>\<open>json.loads\<close>, \<^verbatim>\<open>repr\<close> of a JSON
  value, the SMTP layer (its answer may depend on the sessions opened before in this run),
  and whether the log file is still on disk when the log email is built.
\<close>

record runtime =
  json_loads :: "string \<Rightarrow> json_result"
  py_repr :: "json \<Rightarrow> string"
  smtp_send :: "smtp_request list \<Rightarrow> smtp_request \<Rightarrow> smtp_result"
  isfile_log :: bool

text \<open>The module's settings once loaded (lines 34 to 80).\<close>

record config =
  SMTP_SERVER :: string
  SMTP_PORT :: int
  EMAIL_ADDRESS :: string
  EMAIL_PASSWORD :: string
  LANDLORD_EMAIL :: string
  TENANTS :: "json list"

text \<open>The globals \<^verbatim>\<open>success_count\<close>, \<^verbatim>\<open>failure_count\<close>, \<^verbatim>\<open>failed_tenants\<close> (lines 83 to 85),
  the lines logged by this run and the SMTP sessions it has opened.\<close>

record run_state =
  success_count :: nat
  failure_count :: nat
  failed_tenants :: "failure_record list"
  logged :: "log_entry list"
  sessions :: "smtp_request list"

text \<open>A statement either completes with the new state or raises, leaving the state as it was
  at that point.\<close>

type_synonym outcome = "(py_exc \<times> run_state) + run_state"

definition logging :: "level \<Rightarrow> log_event \<Rightarrow> run_state \<Rightarrow> run_state" where
  "logging lv ev st = st\<lparr>logged := logged st @ [(lv, ev)]\<rparr>"

text \<open>\<^verbatim>\<open>f"{v}"\<close>: a str as it is, any other value through \<^verbatim>\<open>repr\<close>.\<close>

definition py_str :: "runtime \<Rightarrow> json \<Rightarrow> string" where
  "py_str rt v = (case v of JStr s \<Rightarrow> s | _ \<Rightarrow> py_repr rt v)"

subsection \<open>\<^verbatim>\<open>send_email_reminder\<close>\<close>

definition required_fields :: "string list" where
  "required_fields = [''email'', ''name'', ''payment_amount'', ''payment_description'']"

text \<open>\<^verbatim>\<open>[field for field in required_fields if field not in tenant]\<close>\<close>

fun missing_of :: "json \<Rightarrow> string list \<Rightarrow> py_exc + string list" where
  "missing_of tenant [] = Inr []"
| "missing_of tenant (field # others) =
     (case py_contains tenant field of
        Inl e \<Rightarrow> Inl e
      | Inr present \<Rightarrow>
          (case missing_of tenant others of
             Inl e \<Rightarrow> Inl e
           | Inr rest \<Rightarrow> Inr (if present then rest else field # rest)))"

text \<open>
  The four places that record a failure are the same two statements:
  \<^verbatim>\<open>failure_count += 1\<close>, then \<^verbatim>\<open>failed_tenants.append({"tenant": tenant.get("name", "Unknown"),
  "email": tenant.get("email", "Unknown"), "reason": ...})\<close>. The counter is incremented before
  the dict is built, and the reason is the last value of the dict to be evaluated.
\<close>

definition append_failure :: "json \<Rightarrow> (py_exc + string) \<Rightarrow> run_state \<Rightarrow> outcome" where
  "append_failure tenant reason st =
     (case py_get tenant ''name'' (JStr ''Unknown'') of
        Inl e \<Rightarrow> Inl (e, st\<lparr>failure_count := failure_count st + 1\<rparr>)
      | Inr n \<Rightarrow>
          (case py_get tenant ''email'' (JStr ''Unknown'') of
             Inl e \<Rightarrow> Inl (e, st\<lparr>failure_count := failure_count st + 1\<rparr>)
           | Inr m \<Rightarrow>
               (case reason of
                  Inl e \<Rightarrow> Inl (e, st\<lparr>failure_count := failure_count st + 1\<rparr>)
                | Inr r \<Rightarrow>
                    Inr (st\<lparr>failure_count := failure_count st + 1,
                            failed_tenants := failed_tenants st
                              @ [\<lparr>rec_tenant = n, rec_email = m, rec_reason = r\<rparr>]\<rparr>))))"

text \<open>Lines 113 to 115: \<^verbatim>\<open>float(tenant['payment_amount'])\<close>.\<close>

definition convert_amount :: "runtime \<Rightarrow> json \<Rightarrow> py_exc + pyfloat" where
  "convert_amount rt tenant =
     (case py_getitem tenant ''payment_amount'' of
        Inl e \<Rightarrow> Inl e
      | Inr v \<Rightarrow> py_float (py_repr rt) v)"

text \<open>Lines 116 to 125: the handler of \<^verbatim>\<open>except (ValueError, TypeError)\<close>.\<close>

definition invalid_amount :: "runtime \<Rightarrow> json \<Rightarrow> run_state \<Rightarrow> outcome" where
  "invalid_amount rt tenant st =
     (case py_get tenant ''name'' (JStr ''Unknown'') of
        Inl e \<Rightarrow> Inl (e, st)
      | Inr n \<Rightarrow>
          (case py_get tenant ''payment_amount'' JNull of
             Inl e \<Rightarrow> Inl (e, st)
           | Inr a \<Rightarrow>
               append_failure tenant
                 (map_sum id (\<lambda>v. ''Invalid payment_amount: '' @ py_str rt v)
                    (py_get tenant ''payment_amount'' JNull))
                 (logging ERROR (InvalidPaymentAmount n a) st)))"

definition body_part1 :: string where
  "body_part1 =
     ''        <html>\<newline>'' @
     ''        <head>\<newline>'' @
     ''            <style>\<newline>'' @
     ''                /* Fallback styles can be placed here */\<newline>'' @
     ''            </style>\<newline>'' @
     ''        </head>\<newline>'' @
     ''        <body>\<newline>'' @
     ''            <p>Dear ''"

definition body_part2 :: string where
  "body_part2 =
     '',</p>\<newline>'' @
     ''            <p>\<newline>'' @
     ''                This is a friendly reminder that your rent payment of <strong>$''"

definition body_part3 :: string where
  "body_part3 =
     ''</strong> is due soon.\<newline>'' @
     ''            </p>\<newline>'' @
     ''            <p>\<newline>'' @
     ''                <strong>Payment Details:</strong><br>\<newline>'' @
     ''                Property: ''"

definition body_part4 :: string where
  "body_part4 =
     ''<br>\<newline>'' @
     ''                Description: ''"

definition body_part5 :: string where
  "body_part5 =
     ''<br>\<newline>'' @
     ''                Amount: <strong>$''"

definition body_part6 :: string where
  "body_part6 =
     ''</strong>\<newline>'' @
     ''            </p>\<newline>'' @
     ''            <p>\<newline>'' @
     ''                If payment is not received by the 5th day of the month, a 10% late fee will be imposed.\<newline>'' @
     ''            </p>\<newline>'' @
     ''            <p>\<newline>'' @
     ''            <!-- Buttons Section -->\<newline>'' @
     ''            <p>\<newline>'' @
     ''                <a href=\"https://app.payrent.com/sign-in\"\<newline>'' @
     ''                   style=\"\<newline>'' @
     ''                       display: inline-block;\<newline>'' @
     ''                       padding: 10px 20px;\<newline>'' @
     ''                       font-size: 16px;\<newline>'' @
     ''                       color: #ffffff;\<newline>'' @
     ''                       background-color: #ff9500;\<newline>'' @
     ''                       text-decoration: none;\<newline>'' @
     ''                       border-radius: 5px;\<newline>'' @
     ''                       margin-right: 10px;\<newline>'' @
     ''                   \">\<newline>'' @
     ''                    Pay Now\<newline>'' @
     ''                </a>\<newline>'' @
     ''            </p>\<newline>'' @
     ''                If you have any questions or need more information, please visit:\<newline>'' @
     ''                <a href=\"https://segundorentalservices.net/\" style=\"color: #1a0dab; text-decoration: none;\">https://segundorentalservices.net/</a>\<newline>'' @
     ''            </p>\<newline>'' @
     ''            <p>Thank you!<br><br>Have a great day!</p>\<newline>'' @
     ''        </body>\<newline>'' @
     ''        </html>\<newline>'' @
     ''        ''"

text \<open>Lines 130 to 174: the f-string, with the five values it substitutes.\<close>

definition reminder_body :: "string \<Rightarrow> string \<Rightarrow> string \<Rightarrow> string \<Rightarrow> string" where
  "reminder_body name amount location description =
     body_part1 @ name @ body_part2 @ amount @ body_part3 @ location @ body_part4 @ description
       @ body_part5 @ amount @ body_part6"

definition render_body :: "runtime \<Rightarrow> json \<Rightarrow> pyfloat \<Rightarrow> py_exc + string" where
  "render_body rt tenant payment_amount =
     (case py_getitem tenant ''name'' of
        Inl e \<Rightarrow> Inl e
      | Inr n \<Rightarrow>
          (case py_get tenant ''property_location'' (JStr ''N/A'') of
             Inl e \<Rightarrow> Inl e
           | Inr loc \<Rightarrow>
               (case py_getitem tenant ''payment_description'' of
                  Inl e \<Rightarrow> Inl e
                | Inr d \<Rightarrow>
                    Inr (reminder_body (py_str rt n) (format_2f payment_amount) (py_str rt loc)
                           (py_str rt d)))))"

text \<open>Lines 176 to 191: the message for \<^verbatim>\<open>tenant["email"]\<close> and the session that sends it.\<close>

definition reminder_request :: "config \<Rightarrow> json \<Rightarrow> string \<Rightarrow> smtp_request" where
  "reminder_request cfg to_addr html =
     \<lparr>server = SMTP_SERVER cfg, port = SMTP_PORT cfg,
      login_user = EMAIL_ADDRESS cfg, login_password = EMAIL_PASSWORD cfg,
      mail_from = EMAIL_ADDRESS cfg, rcpt_to = to_addr,
      subject = ''Rent Payment Reminder'', body = html, attachment = None\<rparr>"

text \<open>Lines 186 to 203: the inner \<^verbatim>\<open>try\<close> with its \<^verbatim>\<open>except smtplib.SMTPException\<close>. After the
  session, line 192 reads \<^verbatim>\<open>tenant['name']\<close> and \<^verbatim>\<open>tenant['email']\<close> for the log line.\<close>

definition send_message :: "runtime \<Rightarrow> config \<Rightarrow> json \<Rightarrow> json \<Rightarrow> string \<Rightarrow> run_state \<Rightarrow> outcome" where
  "send_message rt cfg tenant to_addr html st =
     (case smtp_send rt (sessions st) (reminder_request cfg to_addr html) of
        Sent \<Rightarrow>
          (case py_getitem tenant ''name'' of
             Inl e \<Rightarrow> Inl (e, st\<lparr>sessions := sessions st @ [reminder_request cfg to_addr html]\<rparr>)
           | Inr n \<Rightarrow>
               (case py_getitem tenant ''email'' of
                  Inl e \<Rightarrow>
                    Inl (e, st\<lparr>sessions := sessions st @ [reminder_request cfg to_addr html]\<rparr>)
                | Inr em \<Rightarrow>
                    Inr ((logging INFO (ReminderSent n em)
                            (st\<lparr>sessions := sessions st @ [reminder_request cfg to_addr html]\<rparr>))
                           \<lparr>success_count := success_count st + 1\<rparr>)))
      | SMTPError smtp_err \<Rightarrow>
          (case py_get tenant ''email'' (JStr ''Unknown'') of
             Inl e \<Rightarrow> Inl (e, st\<lparr>sessions := sessions st @ [reminder_request cfg to_addr html]\<rparr>)
           | Inr em \<Rightarrow>
               append_failure tenant (Inr (''SMTP error: '' @ smtp_err))
                 (logging ERROR (SmtpErrorTenant em smtp_err)
                    (st\<lparr>sessions := sessions st @ [reminder_request cfg to_addr html]\<rparr>)))
      | OtherError msg \<Rightarrow>
          Inl (PyExc OtherException msg,
               st\<lparr>sessions := sessions st @ [reminder_request cfg to_addr html]\<rparr>))"

text \<open>Lines 127 to 203, reached with the converted amount: the body, then
  \<^verbatim>\<open>msg["To"] = tenant["email"]\<close>, then the session.\<close>

definition render_and_send :: "runtime \<Rightarrow> config \<Rightarrow> json \<Rightarrow> pyfloat \<Rightarrow> run_state \<Rightarrow> outcome" where
  "render_and_send rt cfg tenant payment_amount st =
     (case render_body rt tenant payment_amount of
        Inl e \<Rightarrow> Inl (e, st)
      | Inr html \<Rightarrow>
          (case py_getitem tenant ''email'' of
             Inl e \<Rightarrow> Inl (e, st)
           | Inr to_addr \<Rightarrow> send_message rt cfg tenant to_addr html st))"

text \<open>Lines 96 to 203: the body of the outer \<^verbatim>\<open>try\<close>.\<close>

definition try_block :: "runtime \<Rightarrow> config \<Rightarrow> json \<Rightarrow> run_state \<Rightarrow> outcome" where
  "try_block rt cfg tenant st =
     (case missing_of tenant required_fields of
        Inl e \<Rightarrow> Inl (e, st)
      | Inr missing_fields \<Rightarrow>
          if missing_fields \<noteq> [] then
            append_failure tenant (Inr (''Missing fields: '' @ join '', '' missing_fields))
              (logging ERROR (MissingFields missing_fields tenant) st)
          else
            (case convert_amount rt tenant of
               Inl e \<Rightarrow>
                 if exc_cls e = ValueError \<or> exc_cls e = TypeError then invalid_amount rt tenant st
                 else Inl (e, st)
             | Inr payment_amount \<Rightarrow> render_and_send rt cfg tenant payment_amount st))"

text \<open>Lines 205 to 213: the handler of \<^verbatim>\<open>except Exception as e\<close>. Its first step is
  \<^verbatim>\<open>tenant.get('email', 'Unknown')\<close>, evaluated for the log line; an exception raised here
  leaves the function.\<close>

definition unexpected_error :: "json \<Rightarrow> py_exc \<Rightarrow> run_state \<Rightarrow> outcome" where
  "unexpected_error tenant e st =
     (case py_get tenant ''email'' (JStr ''Unknown'') of
        Inl e' \<Rightarrow> Inl (e', st)
      | Inr em \<Rightarrow>
          append_failure tenant (Inr (''Unexpected error: '' @ exc_str e))
            (logging ERROR (UnexpectedErrorTenant em e) st))"

definition send_email_reminder :: "runtime \<Rightarrow> config \<Rightarrow> json \<Rightarrow> run_state \<Rightarrow> outcome" where
  "send_email_reminder rt cfg tenant st =
     (case try_block rt cfg tenant st of
        Inr st' \<Rightarrow> Inr st'
      | Inl (e, st') \<Rightarrow> unexpected_error tenant e st')"

subsection \<open>\<^verbatim>\<open>send_log_email\<close>, \<^verbatim>\<open>send_emails_to_all_tenants\<close>, \<^verbatim>\<open>check_and_send_email\<close>\<close>

definition log_email_body :: string where
  "log_email_body =
     ''Hello,\<newline>'' @
     ''\<newline>'' @
     ''Please find attached the log file for the latest execution of the email reminder script.\<newline>'' @
     ''\<newline>'' @
     ''Best regards,\<newline>'' @
     ''Your Automated Email System\<newline>''"

definition log_request :: "config \<Rightarrow> log_entry list option \<Rightarrow> smtp_request" where
  "log_request cfg att =
     \<lparr>server = SMTP_SERVER cfg, port = SMTP_PORT cfg,
      login_user = EMAIL_ADDRESS cfg, login_password = EMAIL_PASSWORD cfg,
      mail_from = EMAIL_ADDRESS cfg, rcpt_to = JStr (LANDLORD_EMAIL cfg),
      subject = ''Email Reminder Logs - Execution Summary'', body = log_email_body,
      attachment = att\<rparr>"

text \<open>Lines 239 to 249. The file holds what earlier runs left there (\<open>prior\<close>) followed by the
  lines of this run.\<close>

definition attach_log :: "runtime \<Rightarrow> log_entry list \<Rightarrow> run_state \<Rightarrow> log_entry list option \<times> run_state" where
  "attach_log rt prior st =
     (if isfile_log rt then (Some (prior @ logged st), st)
      else (None, logging ERROR LogFileNotFound st))"

text \<open>Lines 251 to 262: the session, and both handlers, which only log.\<close>

definition deliver_log :: "runtime \<Rightarrow> config \<Rightarrow> log_entry list option \<times> run_state \<Rightarrow> run_state" where
  "deliver_log rt cfg p =
     (case smtp_send rt (sessions (snd p)) (log_request cfg (fst p)) of
        Sent \<Rightarrow>
          logging INFO LogEmailSent
            ((snd p)\<lparr>sessions := sessions (snd p) @ [log_request cfg (fst p)]\<rparr>)
      | SMTPError smtp_err \<Rightarrow>
          logging ERROR (SmtpErrorLogEmail smtp_err)
            ((snd p)\<lparr>sessions := sessions (snd p) @ [log_request cfg (fst p)]\<rparr>)
      | OtherError msg \<Rightarrow>
          logging ERROR (UnexpectedErrorLogEmail msg)
            ((snd p)\<lparr>sessions := sessions (snd p) @ [log_request cfg (fst p)]\<rparr>))"

definition send_log_email :: "runtime \<Rightarrow> config \<Rightarrow> log_entry list \<Rightarrow> run_state \<Rightarrow> run_state" where
  "send_log_email rt cfg prior st = deliver_log rt cfg (attach_log rt prior st)"

text \<open>The \<^verbatim>\<open>for tenant in TENANTS\<close> loop: an exception that leaves \<^verbatim>\<open>send_email_reminder\<close>
  ends it.\<close>

fun for_each_tenant :: "runtime \<Rightarrow> config \<Rightarrow> json list \<Rightarrow> run_state \<Rightarrow> outcome" where
  "for_each_tenant rt cfg [] st = Inr st"
| "for_each_tenant rt cfg (tenant # rest) st =
     (case send_email_reminder rt cfg tenant st of
        Inl x \<Rightarrow> Inl x
      | Inr st' \<Rightarrow> for_each_tenant rt cfg rest st')"

definition send_emails_to_all_tenants :: "runtime \<Rightarrow> config \<Rightarrow> run_state \<Rightarrow> outcome" where
  "send_emails_to_all_tenants rt cfg st =
     (if TENANTS cfg = [] then Inr (logging WARNING NoTenantsFound st)
      else for_each_tenant rt cfg (TENANTS cfg) st)"

definition check_and_send_email :: "runtime \<Rightarrow> config \<Rightarrow> log_entry list \<Rightarrow> run_state \<Rightarrow> outcome" where
  "check_and_send_email rt cfg prior st =
     (case send_emails_to_all_tenants rt cfg st of
        Inl x \<Rightarrow> Inl x
      | Inr st' \<Rightarrow> Inr (send_log_email rt cfg prior st'))"

subsection \<open>The module level: lines 25 to 85 and the \<^verbatim>\<open>__main__\<close> block\<close>

text \<open>
  The process ends in one of four ways: \<^verbatim>\<open>exit(1)\<close> while the settings are read (with the
  lines logged until then), an exception that nothing catches while \<^verbatim>\<open>TENANTS\<close> is read, the
  end of the script, or an exception that nothing catches in \<^verbatim>\<open>check_and_send_email\<close>. On an
  uncaught exception the interpreter prints the traceback and exits with status 1.
\<close>

datatype run_result =
    ConfigExit "log_entry list"
  | ConfigCrash py_exc "log_entry list"
  | Completed run_state
  | Crashed py_exc run_state

fun exit_code :: "run_result \<Rightarrow> nat" where
  "exit_code (ConfigExit l) = 1"
| "exit_code (ConfigCrash e l) = 1"
| "exit_code (Completed st) = 0"
| "exit_code (Crashed e st) = 1"

text \<open>\<^verbatim>\<open>not var_value\<close> for the result of \<^verbatim>\<open>os.getenv\<close>: None or the empty string.\<close>

definition unset :: "string option \<Rightarrow> bool" where
  "unset v = (case v of None \<Rightarrow> True | Some s \<Rightarrow> s = [])"

definition getenv :: "(string \<rightharpoonup> string) \<Rightarrow> string \<Rightarrow> string" where
  "getenv env name = (case env name of None \<Rightarrow> [] | Some s \<Rightarrow> s)"

text \<open>Lines 41 to 50.\<close>

definition missing_smtp_vars :: "(string \<rightharpoonup> string) \<Rightarrow> string list" where
  "missing_smtp_vars env =
     filter (\<lambda>var_name. unset (env var_name))
       [''SMTP_SERVER'', ''SMTP_PORT'', ''EMAIL_ADDRESS'', ''EMAIL_PASSWORD'', ''LANDLORD_EMAIL'']"

text \<open>Lines 58 to 72: the value of \<^verbatim>\<open>TENANTS\<close> and the lines logged on the way, or the
  exception that \<^verbatim>\<open>except json.JSONDecodeError\<close> does not catch.\<close>

definition load_tenants :: "runtime \<Rightarrow> (string \<rightharpoonup> string) \<Rightarrow> py_exc + json list \<times> log_entry list" where
  "load_tenants rt env =
     (if unset (env ''TENANTS'') then Inr ([], [(ERROR, TenantsMissing)])
      else
        (case json_loads rt (getenv env ''TENANTS'') of
           Parsed (JArr xs) \<Rightarrow> Inr (xs, [])
         | Parsed _ \<Rightarrow> Inr ([], [(ERROR, TenantsNotArray)])
         | JSONDecodeError msg \<Rightarrow> Inr ([], [(ERROR, TenantsInvalidJson)])
         | OtherRaise e \<Rightarrow> Inl e))"

definition load_config :: "(string \<rightharpoonup> string) \<Rightarrow> int \<Rightarrow> json list \<Rightarrow> config" where
  "load_config env p tenants =
     \<lparr>SMTP_SERVER = getenv env ''SMTP_SERVER'', SMTP_PORT = p,
      EMAIL_ADDRESS = getenv env ''EMAIL_ADDRESS'', EMAIL_PASSWORD = getenv env ''EMAIL_PASSWORD'',
      LANDLORD_EMAIL = getenv env ''LANDLORD_EMAIL'', TENANTS = tenants\<rparr>"

text \<open>The lines logged from line 25 to line 74.\<close>

definition startup_log :: "json list \<times> log_entry list \<Rightarrow> log_entry list" where
  "startup_log loaded =
     [(INFO, ScriptStarted)] @ snd loaded @ [(INFO, LoadedTenants (fst loaded))]"

text \<open>Lines 83 to 85.\<close>

definition initial_state :: "log_entry list \<Rightarrow> run_state" where
  "initial_state l =
     \<lparr>success_count = 0, failure_count = 0, failed_tenants = [], logged = l, sessions = []\<rparr>"

text \<open>Lines 285 to 287.\<close>

definition run_main :: "runtime \<Rightarrow> config \<Rightarrow> log_entry list \<Rightarrow> run_state \<Rightarrow> run_result" where
  "run_main rt cfg prior st =
     (case check_and_send_email rt cfg prior st of
        Inl (e, st') \<Rightarrow> Crashed e st'
      | Inr st' \<Rightarrow> Completed (logging INFO ScriptCompleted st'))"

text \<open>The whole script, run as \<^verbatim>\<open>__main__\<close> in the environment \<open>env\<close> (after \<^verbatim>\<open>load_dotenv\<close>),
  with \<open>prior\<close> the content of the log file when it starts.\<close>

definition script :: "runtime \<Rightarrow> (string \<rightharpoonup> string) \<Rightarrow> log_entry list \<Rightarrow> run_result" where
  "script rt env prior =
     (if missing_smtp_vars env \<noteq> [] then
        ConfigExit [(INFO, ScriptStarted), (ERROR, MissingSmtpVars (missing_smtp_vars env))]
      else
        (case load_tenants rt env of
           Inl e \<Rightarrow> ConfigCrash e [(INFO, ScriptStarted)]
         | Inr loaded \<Rightarrow>
             (case py_int (getenv env ''SMTP_PORT'') of
                None \<Rightarrow>
                  ConfigExit (startup_log loaded
                                @ [(ERROR, InvalidSmtpPort (getenv env ''SMTP_PORT''))])
              | Some p \<Rightarrow>
                  run_main rt (load_config env p (fst loaded)) prior
                    (initial_state (startup_log loaded)))))"

section \<open>Notions used in the statements\<close>

text \<open>For a tenant that is a dict with items \<open>kvs\<close>: the required fields it lacks, the value
  under \<^verbatim>\<open>payment_amount\<close>, and the session that sends its reminder once the amount has been
  converted to \<open>f\<close>.\<close>

definition missing_keys :: "(string \<times> json) list \<Rightarrow> string list" where
  "missing_keys kvs = filter (\<lambda>f. f \<notin> set (map fst kvs)) required_fields"

definition tenant_request :: "runtime \<Rightarrow> config \<Rightarrow> (string \<times> json) list \<Rightarrow> pyfloat \<Rightarrow> smtp_request" where
  "tenant_request rt cfg kvs f =
     reminder_request cfg (dict_get kvs ''email'' JNull)
       (reminder_body (py_str rt (dict_get kvs ''name'' JNull)) (format_2f f)
          (py_str rt (dict_get kvs ''property_location'' (JStr ''N/A'')))
          (py_str rt (dict_get kvs ''payment_description'' JNull)))"

definition amount_of :: "(string \<times> json) list \<Rightarrow> json" where
  "amount_of kvs = dict_get kvs ''payment_amount'' JNull"

text \<open>One tenant counted: either a success, or a failure with its record.\<close>

definition counted_once :: "run_state \<Rightarrow> run_state \<Rightarrow> bool" where
  "counted_once st st' =
     ((success_count st' = success_count st + 1 \<and> failure_count st' = failure_count st
         \<and> failed_tenants st' = failed_tenants st)
      \<or> (success_count st' = success_count st \<and> failure_count st' = failure_count st + 1
         \<and> (\<exists>r. failed_tenants st' = failed_tenants st @ [r])))"

text \<open>The AttributeError of \<^verbatim>\<open>v.get\<close> for a value of the type named \<open>ty\<close>.\<close>

definition no_get :: "string \<Rightarrow> py_exc" where
  "no_get ty = PyExc AttributeError
     ([CHR 0x27] @ ty @ [CHR 0x27] @ '' object has no attribute '' @ [CHR 0x27] @ ''get'' @ [CHR 0x27])"

text \<open>An environment with every setting present and a tenant list that holds a number.\<close>

definition example_env :: "string \<rightharpoonup> string" where
  "example_env =
     [''SMTP_SERVER'' \<mapsto> ''smtp.example.com'', ''SMTP_PORT'' \<mapsto> ''587'',
      ''EMAIL_ADDRESS'' \<mapsto> ''agent@example.com'', ''EMAIL_PASSWORD'' \<mapsto> ''secret'',
      ''LANDLORD_EMAIL'' \<mapsto> ''landlord@example.com'', ''TENANTS'' \<mapsto> ''[1]'']"

text \<open>Values for the closed examples: a \<^verbatim>\<open>repr\<close> that prints \<^verbatim>\<open>None\<close>, the booleans and the
  integers as Python does, an SMTP layer that accepts every message, and settings.\<close>

fun show_int :: "int \<Rightarrow> string" where
  "show_int n = (if n < 0 then ''-'' @ show_nat (nat (- n)) else show_nat (nat n))"

fun example_repr :: "json \<Rightarrow> string" where
  "example_repr JNull = ''None''"
| "example_repr (JBool b) = (if b then ''True'' else ''False'')"
| "example_repr (JInt n) = show_int n"
| "example_repr v = ''...''"

definition example_runtime :: runtime where
  "example_runtime =
     \<lparr>json_loads = (\<lambda>s. if s = ''[]'' then Parsed (JArr []) else if s = ''{}'' then Parsed (JObj [])
                         else JSONDecodeError ''Expecting value''),
      py_repr = example_repr, smtp_send = (\<lambda>opened req. Sent), isfile_log = True\<rparr>"

definition example_config :: config where
  "example_config =
     \<lparr>SMTP_SERVER = ''smtp.example.com'', SMTP_PORT = 587, EMAIL_ADDRESS = ''agent@example.com'',
      EMAIL_PASSWORD = ''secret'', LANDLORD_EMAIL = ''landlord@example.com'', TENANTS = []\<rparr>"

text \<open>The tenant of the specification's example.\<close>

definition jo :: "(string \<times> json) list" where
  "jo = [(''email'', JStr ''a@x.com''), (''name'', JStr ''Jo''),
         (''payment_amount'', JStr ''950.5''), (''payment_description'', JStr ''May rent'')]"

text \<open>Whether a JSON value is an int.\<close>

definition is_int :: "json \<Rightarrow> bool" where
  "is_int v = (case v of JInt n \<Rightarrow> True | _ \<Rightarrow> False)"

text \<open>A tenant whose amount is the integer \<open>2^1024\<close>.\<close>

definition huge :: int where
  "huge = 2 ^ 1024"

definition big_amount :: "(string \<times> json) list" where
  "big_amount = [(''email'', JStr ''a@x.com''), (''name'', JStr ''Jo''),
         (''payment_amount'', JInt huge), (''payment_description'', JStr ''May rent'')]"

text \<open>The counters and the failure list of a state, and of the result of a run.\<close>

definition tally :: "run_state \<Rightarrow> nat \<times> nat \<times> failure_record list" where
  "tally st = (success_count st, failure_count st, failed_tenants st)"

fun result_tally :: "run_result \<Rightarrow> (nat \<times> nat \<times> failure_record list) option" where
  "result_tally (ConfigExit l) = None"
| "result_tally (ConfigCrash e l) = None"
| "result_tally (Completed st) = Some (tally st)"
| "result_tally (Crashed e st) = Some (tally st)"

text \<open>The lines a run has logged, and the log file it leaves behind.\<close>

fun result_log :: "run_result \<Rightarrow> log_entry list" where
  "result_log (ConfigExit l) = l"
| "result_log (ConfigCrash e l) = l"
| "result_log (Completed st) = logged st"
| "result_log (Crashed e st) = logged st"

definition log_file_after :: "log_entry list \<Rightarrow> run_result \<Rightarrow> log_entry list" where
  "log_file_after prior r = prior @ result_log r"

text \<open>The example environment with another value of \<^verbatim>\<open>TENANTS\<close>.\<close>

definition env_with_tenants :: "string \<Rightarrow> (string \<rightharpoonup> string)" where
  "env_with_tenants s = example_env(''TENANTS'' \<mapsto> s)"

text \<open>Whether a JSON value is an array.\<close>

definition is_array :: "json \<Rightarrow> bool" where
  "is_array v = (case v of JArr xs \<Rightarrow> True | _ \<Rightarrow> False)"

text \<open>Two more tenants for the closed examples: one whose amount is the float \<open>1200.0\<close>
  (\<open>75 * 2^4\<close>), one with a name only.\<close>

definition ann :: "(string \<times> json) list" where
  "ann = [(''email'', JStr ''b@x.com''), (''name'', JStr ''Ann''),
          (''payment_amount'', JFloat (Finite False 75 4)),
          (''payment_description'', JStr ''June rent'')]"

definition bob :: "(string \<times> json) list" where
  "bob = [(''name'', JStr ''Bob'')]"

text \<open>A value of \<^verbatim>\<open>TENANTS\<close> that is not JSON: \<^verbatim>\<open>'[' * 100000\<close>.\<close>

definition deep_text :: string where
  "deep_text = replicate 100000 CHR ''[''"

section \<open>A tenant that is a dict\<close>

lemma missing_of_obj:
  "missing_of (JObj kvs) fs = Inr (filter (\<lambda>f. f \<notin> set (map fst kvs)) fs)"
  by (induction fs) simp_all

lemma append_failure_obj:
  "append_failure (JObj kvs) (Inr r) st =
     Inr (st\<lparr>failure_count := failure_count st + 1,
             failed_tenants := failed_tenants st
               @ [\<lparr>rec_tenant = dict_get kvs ''name'' (JStr ''Unknown''),
                   rec_email = dict_get kvs ''email'' (JStr ''Unknown''), rec_reason = r\<rparr>]\<rparr>)"
  by (simp add: append_failure_def)

lemma getitem_present:
  "k \<in> set (map fst kvs) \<Longrightarrow> py_getitem (JObj kvs) k = Inr (dict_get kvs k d)"
proof -
  assume "k \<in> set (map fst kvs)"
  then obtain v where "map_of kvs k = Some v"
    by (metis map_of_eq_None_iff not_Some_eq set_map)
  then show ?thesis by (simp add: dict_get_def)
qed

lemma missing_keys_empty:
  "missing_keys kvs = [] \<Longrightarrow> k \<in> set required_fields \<Longrightarrow> k \<in> set (map fst kvs)"
  unfolding missing_keys_def by (metis filter_empty_conv)

lemma missing_of_required:
  "missing_of (JObj kvs) required_fields = Inr (missing_keys kvs)"
  by (simp only: missing_of_obj missing_keys_def)

lemma reminder_missing:
  assumes "missing_keys kvs \<noteq> []"
  shows "send_email_reminder rt cfg (JObj kvs) st =
     Inr (st\<lparr>failure_count := failure_count st + 1,
             failed_tenants := failed_tenants st
               @ [\<lparr>rec_tenant = dict_get kvs ''name'' (JStr ''Unknown''),
                   rec_email = dict_get kvs ''email'' (JStr ''Unknown''),
                   rec_reason = ''Missing fields: '' @ join '', '' (missing_keys kvs)\<rparr>],
             logged := logged st @ [(ERROR, MissingFields (missing_keys kvs) (JObj kvs))]\<rparr>)"
  using assms
  by (simp add: send_email_reminder_def try_block_def missing_of_required
      append_failure_obj logging_def)

lemma required_present:
  assumes "missing_keys kvs = []"
  shows "py_getitem (JObj kvs) ''email'' = Inr (dict_get kvs ''email'' JNull)"
    and "py_getitem (JObj kvs) ''name'' = Inr (dict_get kvs ''name'' JNull)"
    and "py_getitem (JObj kvs) ''payment_amount'' = Inr (dict_get kvs ''payment_amount'' JNull)"
    and "py_getitem (JObj kvs) ''payment_description'' = Inr (dict_get kvs ''payment_description'' JNull)"
  by (rule getitem_present, rule missing_keys_empty [OF assms], simp add: required_fields_def)+

lemma dict_get_default:
  "k \<in> set (map fst kvs) \<Longrightarrow> dict_get kvs k d = dict_get kvs k d'"
  by (metis Inr_inject getitem_present)

lemma try_block_present:
  assumes "missing_keys kvs = []"
  shows "try_block rt cfg (JObj kvs) st =
     (case py_float (py_repr rt) (amount_of kvs) of
        Inl e \<Rightarrow>
          if exc_cls e = ValueError \<or> exc_cls e = TypeError then invalid_amount rt (JObj kvs) st
          else Inl (e, st)
      | Inr f \<Rightarrow> render_and_send rt cfg (JObj kvs) f st)"
  by (simp add: try_block_def missing_of_required assms convert_amount_def
      required_present [OF assms] amount_of_def del: py_getitem.simps)

lemma reminder_invalid:
  assumes "missing_keys kvs = []" and "py_float (py_repr rt) (amount_of kvs) = Inl e"
    and "exc_cls e = ValueError \<or> exc_cls e = TypeError"
  shows "send_email_reminder rt cfg (JObj kvs) st =
     Inr (st\<lparr>failure_count := failure_count st + 1,
             failed_tenants := failed_tenants st
               @ [\<lparr>rec_tenant = dict_get kvs ''name'' (JStr ''Unknown''),
                   rec_email = dict_get kvs ''email'' (JStr ''Unknown''),
                   rec_reason = ''Invalid payment_amount: '' @ py_str rt (amount_of kvs)\<rparr>],
             logged := logged st
               @ [(ERROR, InvalidPaymentAmount (dict_get kvs ''name'' (JStr ''Unknown'')) (amount_of kvs))]\<rparr>)"
  using assms(2,3)
  by (simp add: send_email_reminder_def try_block_present [OF assms(1)] invalid_amount_def
      append_failure_obj logging_def amount_of_def)

lemma reminder_unexpected_conversion:
  assumes "missing_keys kvs = []" and "py_float (py_repr rt) (amount_of kvs) = Inl e"
    and "\<not> (exc_cls e = ValueError \<or> exc_cls e = TypeError)"
  shows "send_email_reminder rt cfg (JObj kvs) st =
     Inr (st\<lparr>failure_count := failure_count st + 1,
             failed_tenants := failed_tenants st
               @ [\<lparr>rec_tenant = dict_get kvs ''name'' (JStr ''Unknown''),
                   rec_email = dict_get kvs ''email'' (JStr ''Unknown''),
                   rec_reason = ''Unexpected error: '' @ exc_str e\<rparr>],
             logged := logged st
               @ [(ERROR, UnexpectedErrorTenant (dict_get kvs ''email'' (JStr ''Unknown'')) e)]\<rparr>)"
  using assms(2,3)
  by (simp add: send_email_reminder_def try_block_present [OF assms(1)] unexpected_error_def
      append_failure_obj logging_def)

lemma render_and_send_present:
  assumes "missing_keys kvs = []"
  shows "render_and_send rt cfg (JObj kvs) f st =
     send_message rt cfg (JObj kvs) (dict_get kvs ''email'' JNull)
       (body (tenant_request rt cfg kvs f)) st"
  by (simp add: render_and_send_def render_body_def required_present [OF assms]
      tenant_request_def reminder_request_def del: py_getitem.simps)

lemma request_eq:
  "reminder_request cfg (dict_get kvs ''email'' JNull) (body (tenant_request rt cfg kvs f))
     = tenant_request rt cfg kvs f"
  by (simp add: tenant_request_def reminder_request_def)

lemma reminder_sent:
  assumes "missing_keys kvs = []" and "py_float (py_repr rt) (amount_of kvs) = Inr f"
    and "smtp_send rt (sessions st) (tenant_request rt cfg kvs f) = Sent"
  shows "send_email_reminder rt cfg (JObj kvs) st =
     Inr (st\<lparr>sessions := sessions st @ [tenant_request rt cfg kvs f],
             logged := logged st
               @ [(INFO, ReminderSent (dict_get kvs ''name'' JNull) (dict_get kvs ''email'' JNull))],
             success_count := success_count st + 1\<rparr>)"
  using assms(2,3)
  by (simp add: send_email_reminder_def try_block_present [OF assms(1)]
      render_and_send_present [OF assms(1)] send_message_def request_eq logging_def
      required_present [OF assms(1)] del: py_getitem.simps)

lemma reminder_smtp_error:
  assumes "missing_keys kvs = []" and "py_float (py_repr rt) (amount_of kvs) = Inr f"
    and "smtp_send rt (sessions st) (tenant_request rt cfg kvs f) = SMTPError m"
  shows "send_email_reminder rt cfg (JObj kvs) st =
     Inr (st\<lparr>sessions := sessions st @ [tenant_request rt cfg kvs f],
             logged := logged st
               @ [(ERROR, SmtpErrorTenant (dict_get kvs ''email'' (JStr ''Unknown'')) m)],
             failure_count := failure_count st + 1,
             failed_tenants := failed_tenants st
               @ [\<lparr>rec_tenant = dict_get kvs ''name'' (JStr ''Unknown''),
                   rec_email = dict_get kvs ''email'' (JStr ''Unknown''),
                   rec_reason = ''SMTP error: '' @ m\<rparr>]\<rparr>)"
  using assms(2,3)
  by (simp add: send_email_reminder_def try_block_present [OF assms(1)]
      render_and_send_present [OF assms(1)] send_message_def request_eq logging_def
      append_failure_obj)

lemma reminder_other_error:
  assumes "missing_keys kvs = []" and "py_float (py_repr rt) (amount_of kvs) = Inr f"
    and "smtp_send rt (sessions st) (tenant_request rt cfg kvs f) = OtherError m"
  shows "send_email_reminder rt cfg (JObj kvs) st =
     Inr (st\<lparr>sessions := sessions st @ [tenant_request rt cfg kvs f],
             logged := logged st
               @ [(ERROR, UnexpectedErrorTenant (dict_get kvs ''email'' (JStr ''Unknown''))
                    (PyExc OtherException m))],
             failure_count := failure_count st + 1,
             failed_tenants := failed_tenants st
               @ [\<lparr>rec_tenant = dict_get kvs ''name'' (JStr ''Unknown''),
                   rec_email = dict_get kvs ''email'' (JStr ''Unknown''),
                   rec_reason = ''Unexpected error: '' @ m\<rparr>]\<rparr>)"
  using assms(2,3)
  by (simp add: send_email_reminder_def try_block_present [OF assms(1)]
      render_and_send_present [OF assms(1)] send_message_def request_eq logging_def
      append_failure_obj unexpected_error_def)

section \<open>Counters\<close>

lemma reminder_obj_counted:
  "\<exists>st'. send_email_reminder rt cfg (JObj kvs) st = Inr st' \<and> counted_once st st'"
proof (cases "missing_keys kvs = []")
  case False
  then show ?thesis
    by (simp add: reminder_missing counted_once_def)
next
  case present: True
  show ?thesis
  proof (cases "py_float (py_repr rt) (amount_of kvs)")
    case (Inl e)
    show ?thesis
    proof (cases "exc_cls e = ValueError \<or> exc_cls e = TypeError")
      case True
      then show ?thesis
        by (simp add: reminder_invalid [OF present Inl] counted_once_def)
    next
      case False
      then show ?thesis
        by (simp add: reminder_unexpected_conversion [OF present Inl] counted_once_def)
    qed
  next
    case (Inr f)
    show ?thesis
    proof (cases "smtp_send rt (sessions st) (tenant_request rt cfg kvs f)")
      case Sent
      then show ?thesis
        by (simp add: reminder_sent [OF present Inr] counted_once_def)
    next
      case (SMTPError m)
      then show ?thesis
        by (simp add: reminder_smtp_error [OF present Inr] counted_once_def)
    next
      case (OtherError m)
      then show ?thesis
        by (simp add: reminder_other_error [OF present Inr] counted_once_def)
    qed
  qed
qed

lemma for_each_obj_counted:
  "\<exists>st'. for_each_tenant rt cfg (map JObj kvss) st = Inr st' \<and>
     success_count st' + failure_count st' = success_count st + failure_count st + length kvss \<and>
     failure_count st' + length (failed_tenants st) = failure_count st + length (failed_tenants st')"
proof (induction kvss arbitrary: st)
  case Nil
  then show ?case by simp
next
  case (Cons kvs kvss)
  obtain st1 where s1: "send_email_reminder rt cfg (JObj kvs) st = Inr st1" and c1: "counted_once st st1"
    using reminder_obj_counted by blast
  obtain st' where s2: "for_each_tenant rt cfg (map JObj kvss) st1 = Inr st'"
    and c2: "success_count st' + failure_count st' = success_count st1 + failure_count st1 + length kvss"
    and c3: "failure_count st' + length (failed_tenants st1) = failure_count st1 + length (failed_tenants st')"
    using Cons.IH by blast
  have "for_each_tenant rt cfg (map JObj (kvs # kvss)) st = Inr st'"
    using s1 s2 by simp
  moreover have "success_count st' + failure_count st' = success_count st + failure_count st + length (kvs # kvss)"
    using c1 c2 by (auto simp: counted_once_def)
  moreover have "failure_count st' + length (failed_tenants st) = failure_count st + length (failed_tenants st')"
    using c1 c3 by (auto simp: counted_once_def)
  ultimately show ?case by blast
qed

text \<open>
  Claim C10. A call of \<^verbatim>\<open>send_email_reminder\<close> on a dict returns, and it increments exactly one
  of \<^verbatim>\<open>success_count\<close> and \<^verbatim>\<open>failure_count\<close>, by one, a failure together with one appended
  record; so the difference between \<^verbatim>\<open>failure_count\<close> and the length of \<^verbatim>\<open>failed_tenants\<close> never
  changes, and after the loop over n dicts the two counters have grown by n together. From
  the fresh counters of a run, \<^verbatim>\<open>failure_count\<close> is the length of \<^verbatim>\<open>failed_tenants\<close> and the
  counters add up to n.
\<close>

theorem counters_step_invariant:
  "(\<exists>st'. send_email_reminder rt cfg (JObj kvs) st = Inr st' \<and> counted_once st st')
   \<and> (\<exists>st'. for_each_tenant rt cfg (map JObj kvss) st = Inr st' \<and>
         success_count st' + failure_count st' = success_count st + failure_count st + length kvss \<and>
         failure_count st' + length (failed_tenants st) = failure_count st + length (failed_tenants st'))
   \<and> (\<exists>st'. for_each_tenant rt cfg (map JObj kvss) (initial_state l) = Inr st' \<and>
         success_count st' + failure_count st' = length kvss \<and>
         failure_count st' = length (failed_tenants st'))"
proof -
  obtain st' where "for_each_tenant rt cfg (map JObj kvss) (initial_state l) = Inr st'"
     and "success_count st' + failure_count st' = success_count (initial_state l) + failure_count (initial_state l) + length kvss"
     and "failure_count st' + length (failed_tenants (initial_state l)) = failure_count (initial_state l) + length (failed_tenants st')"
    using for_each_obj_counted by blast
  then have "\<exists>st'. for_each_tenant rt cfg (map JObj kvss) (initial_state l) = Inr st' \<and>
         success_count st' + failure_count st' = length kvss \<and>
         failure_count st' = length (failed_tenants st')"
    by (simp add: initial_state_def)
  then show ?thesis
    using reminder_obj_counted for_each_obj_counted by blast
qed

section \<open>A tenant that is not a dict\<close>

lemma reminder_int:
  "send_email_reminder rt cfg (JInt n) st = Inl (no_get ''int'', st)"
  by (simp add: send_email_reminder_def try_block_def required_fields_def unexpected_error_def no_get_def)

text \<open>
  Claim C1, at the tenant \<^verbatim>\<open>1\<close> (TENANTS = \<^verbatim>\<open>[1, ...]\<close>). \<^verbatim>\<open>"email" not in 1\<close> raises TypeError,
  the handler of \<^verbatim>\<open>except Exception\<close> calls \<^verbatim>\<open>tenant.get\<close>, and the AttributeError of that call
  leaves \<^verbatim>\<open>send_email_reminder\<close>: no failure is recorded and the loop ends before the tenants
  that follow.
\<close>

theorem int_tenant_aborts_batch:
  "send_email_reminder rt cfg (JInt 1) st = Inl (no_get ''int'', st)
   \<and> for_each_tenant rt cfg (JInt 1 # rest) st = Inl (no_get ''int'', st)"
  by (simp add: reminder_int)

text \<open>
  Claim C2, at TENANTS = \<^verbatim>\<open>[1]\<close>. The exception that leaves the reminder phase also leaves
  \<^verbatim>\<open>check_and_send_email\<close>: \<^verbatim>\<open>send_log_email\<close> is never called, no session is opened and nothing
  is logged.
\<close>

theorem int_tenant_skips_log_email:
  "check_and_send_email rt (cfg\<lparr>TENANTS := [JInt 1]\<rparr>) prior st = Inl (no_get ''int'', st)
   \<and> run_main rt (cfg\<lparr>TENANTS := [JInt 1]\<rparr>) prior st = Crashed (no_get ''int'') st"
  by (simp add: run_main_def check_and_send_email_def send_emails_to_all_tenants_def reminder_int)

lemma py_int_587: "py_int ''587'' = Some 587"
  by (simp add: py_int_def to_ascii_def is_ascii_def strip_def py_isspace_def is_digit_def
      nat_of_digits_def digit_val_def int_max_str_digits_def)

text \<open>
  Claim C3, at an environment with the five settings present, the port \<^verbatim>\<open>587\<close> and
  TENANTS = \<^verbatim>\<open>[1]\<close>: the exit status is 1, that of an uncaught exception.
\<close>

theorem valid_settings_exit_code_1:
  "missing_smtp_vars example_env = []
   \<and> py_int (getenv example_env ''SMTP_PORT'') = Some 587
   \<and> exit_code (script (rt\<lparr>json_loads := (\<lambda>s. Parsed (JArr [JInt 1]))\<rparr>) example_env prior) = 1"
  by (simp add: script_def missing_smtp_vars_def example_env_def unset_def getenv_def py_int_587
      run_main_def check_and_send_email_def send_emails_to_all_tenants_def reminder_int
      load_config_def load_tenants_def)

section \<open>Validation of a tenant\<close>

lemma sublist_prepend: "sublist x ys \<Longrightarrow> sublist x (ps @ ys)"
proof -
  assume "sublist x ys"
  then obtain a b where "ys = a @ x @ b" by (auto simp: sublist_def)
  then have "ps @ ys = (ps @ a) @ x @ b" by simp
  then show ?thesis unfolding sublist_def by blast
qed

lemma sublist_postpend: "sublist x ys \<Longrightarrow> sublist x (ys @ ss)"
proof -
  assume "sublist x ys"
  then obtain a b where "ys = a @ x @ b" by (auto simp: sublist_def)
  then have "ys @ ss = a @ x @ (b @ ss)" by simp
  then show ?thesis unfolding sublist_def by blast
qed

lemma sublist_join: "x \<in> set xs \<Longrightarrow> sublist x (join sep xs)"
proof (induction sep xs rule: join.induct)
  case (1 sep)
  then show ?case by simp
next
  case (2 sep x')
  then show ?case by simp
next
  case (3 sep x' y ys)
  show ?case
  proof (cases "x = x'")
    case True
    then show ?thesis by simp
  next
    case False
    with 3 have "sublist x (join sep (y # ys))" by simp
    then have "sublist x ((x' @ sep) @ join sep (y # ys))"
      by (rule sublist_prepend)
    then show ?thesis by simp
  qed
qed

text \<open>
  Claim C5. A dict tenant that lacks a required field is skipped: no session is opened, the
  success counter keeps its value, the failure counter grows by one and exactly one record is
  appended, whose reason is \<^verbatim>\<open>Missing fields:\<close> followed by the missing fields joined with
  commas, so that every missing field is named in it.
\<close>
theorem missing_fields_recorded:
  assumes "field \<in> set required_fields" and "field \<notin> set (map fst kvs)"
  shows "\<exists>st' r. send_email_reminder rt cfg (JObj kvs) st = Inr st'
           \<and> sessions st' = sessions st
           \<and> success_count st' = success_count st
           \<and> failure_count st' = failure_count st + 1
           \<and> failed_tenants st' = failed_tenants st @ [r]
           \<and> rec_reason r = ''Missing fields: '' @ join '', '' (missing_keys kvs)
           \<and> (\<forall>g \<in> set required_fields. g \<notin> set (map fst kvs) \<longrightarrow> sublist g (rec_reason r))"
proof -
  have ne: "missing_keys kvs \<noteq> []"
    using assms unfolding missing_keys_def by (metis filter_empty_conv)
  have named: "sublist g (''Missing fields: '' @ join '', '' (missing_keys kvs))"
    if "g \<in> set required_fields" and "g \<notin> set (map fst kvs)" for g
  proof -
    from that have "g \<in> set (missing_keys kvs)" by (simp add: missing_keys_def)
    then have "sublist g (join '', '' (missing_keys kvs))" by (rule sublist_join)
    then show ?thesis by (rule sublist_prepend)
  qed
  show ?thesis
    unfolding reminder_missing [OF ne] using named by simp
qed

theorem missing_fields_recorded_witness:
  "''email'' \<in> set required_fields \<and> ''email'' \<notin> set (map fst [(''name'', JStr ''Jo'')])
   \<and> (\<exists>st' r. send_email_reminder example_runtime example_config (JObj [(''name'', JStr ''Jo'')]) (initial_state []) = Inr st'
           \<and> sessions st' = sessions (initial_state [])
           \<and> success_count st' = success_count (initial_state [])
           \<and> failure_count st' = failure_count (initial_state []) + 1
           \<and> failed_tenants st' = failed_tenants (initial_state []) @ [r]
           \<and> rec_reason r = ''Missing fields: '' @ join '', '' (missing_keys [(''name'', JStr ''Jo'')])
           \<and> (\<forall>g \<in> set required_fields. g \<notin> set (map fst [(''name'', JStr ''Jo'')]) \<longrightarrow> sublist g (rec_reason r)))"
proof -
  have a: "''email'' \<in> set required_fields" by (simp add: required_fields_def)
  have b: "''email'' \<notin> set (map fst [(''name'', JStr ''Jo'')])" by simp
  show ?thesis
    using a b missing_fields_recorded [OF a b, of example_runtime example_config "initial_state []"]
    by blast
qed

lemma py_float_error:
  assumes "py_float repr v = Inl e"
  shows "if is_int v then e = PyExc OverflowError ''int too large to convert to float''
         else exc_cls e = ValueError \<or> exc_cls e = TypeError"
proof (cases v)
  case (JInt n)
  with assms show ?thesis
    by (auto simp: is_int_def float_of_int_def split: pyfloat.splits)
next
  case (JStr s)
  with assms show ?thesis
    by (auto simp: is_int_def split: option.splits)
qed (use assms in \<open>auto simp: is_int_def split: if_splits\<close>)

lemma bit_length_pow2: "bit_length (2 ^ k) = Suc k"
proof (induction k)
  case 0
  have "bit_length 1 = Suc (bit_length 0)" by (subst bit_length.simps) simp
  also have "bit_length 0 = 0" by (subst bit_length.simps) simp
  finally show ?case by simp
next
  case (Suc k)
  have "bit_length (2 ^ Suc k) = Suc (bit_length (2 ^ Suc k div 2))"
    by (subst bit_length.simps) simp
  then show ?case using Suc by simp
qed

lemma bit_length_1: "bit_length (Suc 0) = Suc 0"
  using bit_length_pow2 [of 0] by simp

lemma double_of_pow2:
  assumes "1024 \<le> k"
  shows "double_of_ratio s (2 ^ k) 1 = Infinity s"
proof -
  have fl: "floor_log2_ratio (2 ^ k) 1 = int k"
    by (simp add: floor_log2_ratio_def bit_length_pow2 bit_length_1 ratio_ge_pow2_def)
  have e: "ulp_exponent (2 ^ k) 1 = int k - 52"
    unfolding ulp_exponent_def fl using assms by simp
  have "(2::nat) ^ k = 2 ^ ((k - 52) + 52)"
    by (rule arg_cong [where f = "(^) 2"]) (use assms in arith)
  also have "\<dots> = 2 ^ (k - 52) * 2 ^ 52"
    by (rule power_add)
  finally have split: "(2::nat) ^ k = 2 ^ (k - 52) * 2 ^ 52" .
  have md: "(2::nat) ^ k mod 2 ^ (k - 52) = 0"
    by (subst split) simp
  have dv: "(2::nat) ^ k div 2 ^ (k - 52) = 2 ^ 52"
    by (subst split) simp
  have nat1: "nat (52 - int k) = 0" and nat2: "nat (int k - 52) = k - 52"
    using assms by simp_all
  have m: "scaled_mantissa (2 ^ k) 1 (int k - 52) = 2 ^ 52"
    unfolding scaled_mantissa_def round_half_even_def
    by (simp only: minus_diff_eq nat1 nat2 power_0 mult_1_right mult_1 md dv mult_zero_right
        zero_less_power zero_less_numeral if_True)
  have "(2::nat) ^ 1024 \<le> 2 ^ k"
    using assms by (simp only: power_increasing_iff one_less_numeral_iff semiring_norm)
  then have big: "(2::nat) ^ 1024 \<le> 2 ^ 52 * 2 ^ (k - 52)"
    by (subst (asm) split) (simp only: mult.commute)
  have pos: "0 \<le> int k - 52" using assms by simp
  show ?thesis
    unfolding double_of_ratio_def e m make_double_def
    by (simp only: nat2 big pos power_eq_0_iff simp_thms if_True if_False) simp
qed

lemma float_of_huge:
  "float_of_int huge = Inl (PyExc OverflowError ''int too large to convert to float'')"
proof -
  have dr: "double_of_ratio False (2 ^ 1024) 1 = Infinity False"
    by (rule double_of_pow2) simp
  have n: "nat \<bar>huge\<bar> = 2 ^ 1024"
    by (simp add: huge_def)
  have lt: "(huge < 0) = False"
    by (simp add: huge_def)
  show ?thesis
    unfolding float_of_int_def by (simp only: n lt dr pyfloat.case)
qed

lemma show_nat_digits: "show_nat n \<noteq> [] \<and> set (show_nat n) \<subseteq> set ''0123456789''"
proof (induction n rule: show_nat.induct)
  case (1 n)
  have d: "''0123456789'' ! k \<in> set ''0123456789''" if "k < 10" for k
    by (rule nth_mem) (use that in simp)
  show ?case
  proof (cases "n < 10")
    case True
    then show ?thesis using d [of n] by (subst (1 2) show_nat.simps) simp
  next
    case False
    then show ?thesis using 1 d [of "n mod 10"] by (subst (1 2) show_nat.simps) simp
  qed
qed

lemma no_digits_in_overflow_text:
  "\<not> sublist (show_nat n) ''Unexpected error: int too large to convert to float''"
proof
  assume "sublist (show_nat n) ''Unexpected error: int too large to convert to float''"
  then have "set (show_nat n) \<subseteq> set ''Unexpected error: int too large to convert to float''"
    by (rule set_mono_sublist)
  moreover obtain c where "c \<in> set (show_nat n)" and "c \<in> set ''0123456789''"
    using show_nat_digits [of n] by (cases "show_nat n") auto
  ultimately show False by auto
qed

text \<open>
  Claim C6 fails for an integer too large for a float, here \<open>2^1024\<close>: \<^verbatim>\<open>float\<close> raises
  OverflowError, which \<^verbatim>\<open>except (ValueError, TypeError)\<close> does not catch, so the record is
  written by the handler of \<^verbatim>\<open>except Exception\<close> and its reason does not contain the value.
\<close>
theorem overflow_reason_counterexample:
  "missing_keys big_amount = []
   \<and> isl (convert_amount example_runtime (JObj big_amount))
   \<and> send_email_reminder example_runtime example_config (JObj big_amount) (initial_state []) =
       Inr \<lparr>success_count = 0, failure_count = 1,
            failed_tenants = [\<lparr>rec_tenant = JStr ''Jo'', rec_email = JStr ''a@x.com'',
               rec_reason = ''Unexpected error: int too large to convert to float''\<rparr>],
            logged = [(ERROR, UnexpectedErrorTenant (JStr ''a@x.com'')
               (PyExc OverflowError ''int too large to convert to float''))],
            sessions = []\<rparr>
   \<and> \<not> sublist (py_str example_runtime (amount_of big_amount))
         ''Unexpected error: int too large to convert to float''"
proof -
  have mk: "missing_keys big_amount = []"
    by (simp add: missing_keys_def big_amount_def required_fields_def)
  have am: "amount_of big_amount = JInt huge"
    by (simp add: amount_of_def big_amount_def dict_get_def)
  have pf: "py_float (py_repr example_runtime) (amount_of big_amount)
              = Inl (PyExc OverflowError ''int too large to convert to float'')"
    by (simp only: am py_float.simps float_of_huge)
  have conv: "isl (convert_amount example_runtime (JObj big_amount))"
    using pf by (simp add: convert_amount_def required_present [OF mk] amount_of_def del: py_getitem.simps)
  have run: "send_email_reminder example_runtime example_config (JObj big_amount) (initial_state []) =
       Inr \<lparr>success_count = 0, failure_count = 1,
            failed_tenants = [\<lparr>rec_tenant = JStr ''Jo'', rec_email = JStr ''a@x.com'',
               rec_reason = ''Unexpected error: int too large to convert to float''\<rparr>],
            logged = [(ERROR, UnexpectedErrorTenant (JStr ''a@x.com'')
               (PyExc OverflowError ''int too large to convert to float''))],
            sessions = []\<rparr>"
    using reminder_unexpected_conversion [OF mk pf, of example_config "initial_state []"]
    by (simp add: initial_state_def dict_get_def big_amount_def)
  have "py_str example_runtime (amount_of big_amount) = show_nat (nat huge)"
    by (simp add: am py_str_def example_runtime_def huge_def)
  then have "\<not> sublist (py_str example_runtime (amount_of big_amount))
         ''Unexpected error: int too large to convert to float''"
    by (simp only: no_digits_in_overflow_text not_False_eq_True)
  with mk conv run show ?thesis by blast
qed

text \<open>
  Claim C6, amended. A dict tenant with every required field whose \<^verbatim>\<open>payment_amount\<close> does not
  convert is skipped (no session, success counter unchanged) and one failure record is
  appended. When the amount is not an int (a text that is no number, \<^verbatim>\<open>null\<close>, a list or a
  dict) the reason is \<^verbatim>\<open>Invalid payment_amount:\<close> followed by the value, which it therefore
  contains; when it is an int (too large for a float) the reason is
  \<^verbatim>\<open>Unexpected error: int too large to convert to float\<close>.
\<close>
theorem unconvertible_amount_recorded:
  assumes "missing_keys kvs = []" and "py_float (py_repr rt) (amount_of kvs) = Inl e"
  shows "\<exists>st' r. send_email_reminder rt cfg (JObj kvs) st = Inr st'
           \<and> sessions st' = sessions st
           \<and> success_count st' = success_count st
           \<and> failure_count st' = failure_count st + 1
           \<and> failed_tenants st' = failed_tenants st @ [r]
           \<and> rec_reason r =
               (if is_int (amount_of kvs) then ''Unexpected error: int too large to convert to float''
                else ''Invalid payment_amount: '' @ py_str rt (amount_of kvs))
           \<and> (is_int (amount_of kvs) \<or> sublist (py_str rt (amount_of kvs)) (rec_reason r))"
proof -
  have core: "\<exists>st' r. send_email_reminder rt cfg (JObj kvs) st = Inr st'
           \<and> sessions st' = sessions st
           \<and> success_count st' = success_count st
           \<and> failure_count st' = failure_count st + 1
           \<and> failed_tenants st' = failed_tenants st @ [r]
           \<and> rec_reason r =
               (if is_int (amount_of kvs) then ''Unexpected error: int too large to convert to float''
                else ''Invalid payment_amount: '' @ py_str rt (amount_of kvs))"
  proof (cases "is_int (amount_of kvs)")
    case True
    with py_float_error [OF assms(2)]
    have e: "e = PyExc OverflowError ''int too large to convert to float''" by simp
    then have "\<not> (exc_cls e = ValueError \<or> exc_cls e = TypeError)" by simp
    from reminder_unexpected_conversion [OF assms this] True e show ?thesis by simp
  next
    case False
    with py_float_error [OF assms(2)]
    have "exc_cls e = ValueError \<or> exc_cls e = TypeError" by simp
    from reminder_invalid [OF assms this] False show ?thesis by simp
  qed
  then obtain st' r where run: "send_email_reminder rt cfg (JObj kvs) st = Inr st'"
    and s: "sessions st' = sessions st" and sc: "success_count st' = success_count st"
    and fc: "failure_count st' = failure_count st + 1"
    and ft: "failed_tenants st' = failed_tenants st @ [r]"
    and rr: "rec_reason r =
               (if is_int (amount_of kvs) then ''Unexpected error: int too large to convert to float''
                else ''Invalid payment_amount: '' @ py_str rt (amount_of kvs))"
    by blast
  have "is_int (amount_of kvs) \<or> sublist (py_str rt (amount_of kvs)) (rec_reason r)"
  proof (cases "is_int (amount_of kvs)")
    case True
    then show ?thesis by simp
  next
    case False
    then have "rec_reason r = ''Invalid payment_amount: '' @ py_str rt (amount_of kvs)"
      by (simp only: rr if_False)
    then show ?thesis
      by (simp only: sublist_append_leftI simp_thms)
  qed
  with run s sc fc ft rr show ?thesis by blast
qed

theorem unconvertible_amount_recorded_witness:
  "missing_keys [(''email'', JStr ''a@x.com''), (''name'', JStr ''Jo''), (''payment_amount'', JStr ''abc''), (''payment_description'', JStr ''May rent'')] = []
   \<and> py_float (py_repr example_runtime) (amount_of [(''email'', JStr ''a@x.com''), (''name'', JStr ''Jo''), (''payment_amount'', JStr ''abc''), (''payment_description'', JStr ''May rent'')])
        = Inl (PyExc ValueError (''could not convert string to float: '' @ ''...''))
   \<and> (\<exists>st' r. send_email_reminder example_runtime example_config (JObj [(''email'', JStr ''a@x.com''), (''name'', JStr ''Jo''), (''payment_amount'', JStr ''abc''), (''payment_description'', JStr ''May rent'')]) (initial_state []) = Inr st'
           \<and> sessions st' = []
           \<and> success_count st' = 0
           \<and> failure_count st' = 1
           \<and> failed_tenants st' = [r]
           \<and> rec_reason r = ''Invalid payment_amount: abc'')"
proof -
  let ?kvs = "[(''email'', JStr ''a@x.com''), (''name'', JStr ''Jo''), (''payment_amount'', JStr ''abc''), (''payment_description'', JStr ''May rent'')]"
  have a: "missing_keys ?kvs = []"
    by (simp add: missing_keys_def required_fields_def)
  have am: "amount_of ?kvs = JStr ''abc''"
    by (simp add: amount_of_def dict_get_def)
  have fs: "float_of_string ''abc'' = None"
    by (simp add: float_of_string_def to_ascii_def is_ascii_def float_of_signed_def strip_def py_isspace_def is_digit_def
        lower_def parse_decimal_def frac_part_def)
  have b: "py_float (py_repr example_runtime) (amount_of ?kvs)
        = Inl (PyExc ValueError (''could not convert string to float: '' @ ''...''))"
    by (simp add: am fs example_runtime_def)
  show ?thesis
    using a b unconvertible_amount_recorded [OF a b, of example_config "initial_state []"]
    by (simp add: am py_str_def is_int_def initial_state_def) blast
qed

section \<open>The rendered message\<close>










lemma float_950: "float_of_string ''950.5'' = Some (Finite False 8360686417608704 (- 43))"
  by (simp add: float_of_string_def to_ascii_def is_ascii_def float_of_signed_def
      double_of_decimal_def parse_decimal_def parse_exponent_def frac_part_def after_frac_def double_of_ratio_def
      make_double_def scaled_mantissa_def ulp_exponent_def floor_log2_ratio_def
      ratio_ge_pow2_def round_half_even_def strip_def py_isspace_def is_digit_def digit_val_def
      nat_of_digits_def lower_def bit_length.simps)


lemma jo_valid:
  "missing_keys jo = []"
  "py_float (py_repr rt) (amount_of jo) = Inr (Finite False 8360686417608704 (- 43))"
  by (simp_all add: missing_keys_def jo_def required_fields_def amount_of_def dict_get_def float_950)




section \<open>The run\<close>

lemma send_log_email_effect:
  "\<exists>att. tally (send_log_email rt cfg prior st) = tally st
     \<and> sessions (send_log_email rt cfg prior st) = sessions st @ [log_request cfg att]
     \<and> set (logged st) \<subseteq> set (logged (send_log_email rt cfg prior st))"
  by (cases "isfile_log rt"; cases "smtp_send rt (sessions st) (log_request cfg (Some (prior @ logged st)))";
      cases "smtp_send rt (sessions st) (log_request cfg None)")
    (auto simp: send_log_email_def deliver_log_def attach_log_def logging_def tally_def)

lemma send_log_email_tally:
  "tally (send_log_email rt cfg prior st) = tally st"
  using send_log_email_effect by blast

lemma validation_failure_step:
  assumes "missing_keys kvs \<noteq> [] \<or> isl (py_float (py_repr rt) (amount_of kvs))"
  shows "\<exists>reason line. send_email_reminder rt cfg (JObj kvs) st =
     Inr (st\<lparr>failure_count := failure_count st + 1,
             failed_tenants := failed_tenants st
               @ [\<lparr>rec_tenant = dict_get kvs ''name'' (JStr ''Unknown''),
                   rec_email = dict_get kvs ''email'' (JStr ''Unknown''),
                   rec_reason = reason\<rparr>],
             logged := logged st @ [line]\<rparr>)"
proof (cases "missing_keys kvs = []")
  case False
  then show ?thesis using reminder_missing by blast
next
  case present: True
  with assms obtain e where e: "py_float (py_repr rt) (amount_of kvs) = Inl e"
    by (cases "py_float (py_repr rt) (amount_of kvs)") auto
  show ?thesis
  proof (cases "exc_cls e = ValueError \<or> exc_cls e = TypeError")
    case True
    from reminder_invalid [OF present e True] show ?thesis by blast
  next
    case False
    from reminder_unexpected_conversion [OF present e False] show ?thesis by blast
  qed
qed

lemma run_of_dicts_completes:
  assumes "TENANTS cfg = map JObj kvss"
  shows "\<exists>st' att. check_and_send_email rt cfg prior st = Inr st'
           \<and> last (sessions st') = log_request cfg att
           \<and> run_main rt cfg prior st = Completed (logging INFO ScriptCompleted st')
           \<and> exit_code (run_main rt cfg prior st) = 0"
proof -
  have "\<exists>st1. send_emails_to_all_tenants rt cfg st = Inr st1"
  proof (cases "kvss = []")
    case True
    with assms show ?thesis by (simp add: send_emails_to_all_tenants_def)
  next
    case False
    with assms for_each_obj_counted [of rt cfg kvss st] show ?thesis
      by (auto simp: send_emails_to_all_tenants_def)
  qed
  then obtain st1 where s1: "send_emails_to_all_tenants rt cfg st = Inr st1" ..
  obtain att where "sessions (send_log_email rt cfg prior st1) = sessions st1 @ [log_request cfg att]"
    using send_log_email_effect by blast
  then have "last (sessions (send_log_email rt cfg prior st1)) = log_request cfg att" by simp
  with s1 show ?thesis
    by (auto simp: check_and_send_email_def run_main_def)
qed

lemma config_exit:
  assumes "missing_smtp_vars env \<noteq> [] \<or> py_int (getenv env ''SMTP_PORT'') = None"
  shows "(\<exists>l. script rt env prior = ConfigExit l) \<or> (\<exists>e l. script rt env prior = ConfigCrash e l)"
    and "exit_code (script rt env prior) = 1"
  using assms by (auto simp: script_def split: sum.splits)

lemma script_of_dicts_exit_0:
  assumes "missing_smtp_vars env = []" and "py_int (getenv env ''SMTP_PORT'') = Some p"
    and "load_tenants rt env = Inr (map JObj kvss, l)"
  shows "exit_code (script rt env prior) = 0"
proof -
  have "TENANTS (load_config env p (map JObj kvss)) = map JObj kvss"
    by (simp add: load_config_def)
  from run_of_dicts_completes [OF this]
  have "exit_code (run_main rt (load_config env p (map JObj kvss)) prior
          (initial_state (startup_log (map JObj kvss, l)))) = 0"
    by blast
  with assms show ?thesis by (simp add: script_def)
qed

text \<open>
  Claim C8. With three dict tenants of which the first and the third are valid and accepted by
  the SMTP layer and the second fails validation (a missing field, or an amount that does
  not convert), the run ends with \<^verbatim>\<open>success_count = 2\<close>, \<^verbatim>\<open>failure_count = 1\<close> and one failure
  record, which carries the name and the email of the second tenant (\<^verbatim>\<open>Unknown\<close> for one that
  is absent); the sessions are those of the first tenant, of the third, and of the log email,
  in this order.
\<close>

theorem three_tenants_second_invalid:
  assumes "TENANTS cfg = [JObj k1, JObj k2, JObj k3]"
    and "missing_keys k1 = []" and "py_float (py_repr rt) (amount_of k1) = Inr f1"
    and "missing_keys k3 = []" and "py_float (py_repr rt) (amount_of k3) = Inr f3"
    and "missing_keys k2 \<noteq> [] \<or> isl (py_float (py_repr rt) (amount_of k2))"
    and "smtp_send rt [] (tenant_request rt cfg k1 f1) = Sent"
    and "smtp_send rt [tenant_request rt cfg k1 f1] (tenant_request rt cfg k3 f3) = Sent"
  shows "\<exists>st' r att. check_and_send_email rt cfg prior (initial_state l) = Inr st'
           \<and> success_count st' = 2 \<and> failure_count st' = 1
           \<and> failed_tenants st' = [r]
           \<and> rec_tenant r = dict_get k2 ''name'' (JStr ''Unknown'')
           \<and> rec_email r = dict_get k2 ''email'' (JStr ''Unknown'')
           \<and> sessions st' =
               [tenant_request rt cfg k1 f1, tenant_request rt cfg k3 f3, log_request cfg att]"
proof -
  let ?st0 = "initial_state l"
  have sent1: "smtp_send rt (sessions ?st0) (tenant_request rt cfg k1 f1) = Sent"
    using assms(7) by (simp add: initial_state_def)
  obtain st1 where r1: "send_email_reminder rt cfg (JObj k1) ?st0 = Inr st1"
    and t1: "tally st1 = (1, 0, [])" and s1: "sessions st1 = [tenant_request rt cfg k1 f1]"
    using reminder_sent [OF assms(2,3) sent1] by (simp add: initial_state_def tally_def)
  obtain reason line st2 where r2: "send_email_reminder rt cfg (JObj k2) st1 = Inr st2"
    and st2: "st2 = st1\<lparr>failure_count := failure_count st1 + 1,
             failed_tenants := failed_tenants st1
               @ [\<lparr>rec_tenant = dict_get k2 ''name'' (JStr ''Unknown''),
                   rec_email = dict_get k2 ''email'' (JStr ''Unknown''),
                   rec_reason = reason\<rparr>],
             logged := logged st1 @ [line]\<rparr>"
    using validation_failure_step [OF assms(6), of cfg st1] by auto
  have sent3: "smtp_send rt (sessions st2) (tenant_request rt cfg k3 f3) = Sent"
    using assms(8) by (simp add: st2 s1)
  let ?r = "\<lparr>rec_tenant = dict_get k2 ''name'' (JStr ''Unknown''),
                   rec_email = dict_get k2 ''email'' (JStr ''Unknown''),
                   rec_reason = reason\<rparr>"
  obtain st3 where r3: "send_email_reminder rt cfg (JObj k3) st2 = Inr st3"
    and t3: "tally st3 = (2, 1, [?r])"
    and s3: "sessions st3 = [tenant_request rt cfg k1 f1, tenant_request rt cfg k3 f3]"
    using reminder_sent [OF assms(4,5) sent3] t1 s1 by (simp add: st2 tally_def)
  have loop: "send_emails_to_all_tenants rt cfg ?st0 = Inr st3"
    by (simp add: send_emails_to_all_tenants_def assms(1) r1 r2 r3)
  obtain att where lt: "tally (send_log_email rt cfg prior st3) = tally st3"
    and ls: "sessions (send_log_email rt cfg prior st3) = sessions st3 @ [log_request cfg att]"
    using send_log_email_effect by blast
  have "check_and_send_email rt cfg prior ?st0 = Inr (send_log_email rt cfg prior st3)"
    by (simp add: check_and_send_email_def loop)
  moreover have "success_count (send_log_email rt cfg prior st3) = 2"
    and "failure_count (send_log_email rt cfg prior st3) = 1"
    and "failed_tenants (send_log_email rt cfg prior st3) = [?r]"
    using lt t3 by (simp_all add: tally_def)
  moreover have "sessions (send_log_email rt cfg prior st3) =
      [tenant_request rt cfg k1 f1, tenant_request rt cfg k3 f3, log_request cfg att]"
    using ls s3 by simp
  moreover have "rec_tenant ?r = dict_get k2 ''name'' (JStr ''Unknown'')"
    and "rec_email ?r = dict_get k2 ''email'' (JStr ''Unknown'')" by simp_all
  ultimately show ?thesis by blast
qed

theorem three_tenants_second_invalid_witness:
  "TENANTS (example_config\<lparr>TENANTS := [JObj jo, JObj bob, JObj ann]\<rparr>) = [JObj jo, JObj bob, JObj ann]
   \<and> missing_keys jo = []
   \<and> py_float (py_repr example_runtime) (amount_of jo) = Inr (Finite False 8360686417608704 (- 43))
   \<and> missing_keys ann = []
   \<and> py_float (py_repr example_runtime) (amount_of ann) = Inr (Finite False 75 4)
   \<and> missing_keys bob = [''email'', ''payment_amount'', ''payment_description'']
   \<and> (\<exists>st' r att.
         check_and_send_email example_runtime (example_config\<lparr>TENANTS := [JObj jo, JObj bob, JObj ann]\<rparr>)
           [] (initial_state []) = Inr st'
         \<and> success_count st' = 2 \<and> failure_count st' = 1
         \<and> failed_tenants st' = [r]
         \<and> rec_tenant r = JStr ''Bob''
         \<and> rec_email r = JStr ''Unknown''
         \<and> sessions st' =
             [tenant_request example_runtime (example_config\<lparr>TENANTS := [JObj jo, JObj bob, JObj ann]\<rparr>) jo
                (Finite False 8360686417608704 (- 43)),
              tenant_request example_runtime (example_config\<lparr>TENANTS := [JObj jo, JObj bob, JObj ann]\<rparr>) ann
                (Finite False 75 4),
              log_request (example_config\<lparr>TENANTS := [JObj jo, JObj bob, JObj ann]\<rparr>) att])"
proof -
  let ?cfg = "example_config\<lparr>TENANTS := [JObj jo, JObj bob, JObj ann]\<rparr>"
  have h1: "TENANTS ?cfg = [JObj jo, JObj bob, JObj ann]" by simp
  have h4: "missing_keys ann = []"
    by (simp add: missing_keys_def ann_def required_fields_def)
  have h5: "py_float (py_repr example_runtime) (amount_of ann) = Inr (Finite False 75 4)"
    by (simp add: amount_of_def ann_def dict_get_def)
  have mb: "missing_keys bob = [''email'', ''payment_amount'', ''payment_description'']"
    by (simp add: missing_keys_def bob_def required_fields_def)
  then have h6: "missing_keys bob \<noteq> [] \<or> isl (py_float (py_repr example_runtime) (amount_of bob))"
    by simp
  have h7: "smtp_send example_runtime []
      (tenant_request example_runtime ?cfg jo (Finite False 8360686417608704 (- 43))) = Sent"
    by (simp add: example_runtime_def)
  have h8: "smtp_send example_runtime
      [tenant_request example_runtime ?cfg jo (Finite False 8360686417608704 (- 43))]
      (tenant_request example_runtime ?cfg ann (Finite False 75 4)) = Sent"
    by (simp add: example_runtime_def)
  have nb: "dict_get bob ''name'' (JStr ''Unknown'') = JStr ''Bob''"
    and eb: "dict_get bob ''email'' (JStr ''Unknown'') = JStr ''Unknown''"
    by (simp_all add: bob_def dict_get_def)
  note t = three_tenants_second_invalid [OF h1 jo_valid(1) jo_valid(2) h4 h5 h6 h7 h8, of "[]" "[]",
      unfolded nb eb]
  show ?thesis
  proof (intro conjI)
    show "\<exists>st' r att.
         check_and_send_email example_runtime ?cfg [] (initial_state []) = Inr st'
         \<and> success_count st' = 2 \<and> failure_count st' = 1
         \<and> failed_tenants st' = [r]
         \<and> rec_tenant r = JStr ''Bob''
         \<and> rec_email r = JStr ''Unknown''
         \<and> sessions st' =
             [tenant_request example_runtime ?cfg jo (Finite False 8360686417608704 (- 43)),
              tenant_request example_runtime ?cfg ann (Finite False 75 4),
              log_request ?cfg att]"
      by (rule t)
  qed (rule h1 jo_valid h4 h5 mb)+
qed

section \<open>Two runs\<close>

lemma logging_tally: "tally (logging lv ev st) = tally st"
  by (simp add: logging_def tally_def)

lemma run_main_tally:
  "result_tally (run_main rt cfg prior1 st) = result_tally (run_main rt cfg prior2 st)
   \<and> exit_code (run_main rt cfg prior1 st) = exit_code (run_main rt cfg prior2 st)"
proof (cases "send_emails_to_all_tenants rt cfg st")
  case (Inl x)
  then show ?thesis
    by (cases x) (simp add: run_main_def check_and_send_email_def)
next
  case (Inr st1)
  then show ?thesis
    by (simp add: run_main_def check_and_send_email_def logging_tally send_log_email_tally)
qed

lemma script_tally:
  "result_tally (script rt env prior1) = result_tally (script rt env prior2)
   \<and> exit_code (script rt env prior1) = exit_code (script rt env prior2)"
  using run_main_tally by (auto simp: script_def split: option.splits sum.splits)

text \<open>
  Claim C9. A run starts from the counters of lines 83 to 85, and the log file is the only
  thing it reads that an earlier run has written. So two runs in the same environment, with
  the same \<^verbatim>\<open>json.loads\<close>, \<^verbatim>\<open>repr\<close> and SMTP layer, end with the same counters, the same failure
  list and the same exit status whatever the log file holds when each starts; in particular
  a second run, which starts with the log file the first one left, repeats its counts.
\<close>

theorem counts_independent_of_log_file:
  "result_tally (script rt env prior1) = result_tally (script rt env prior2)
   \<and> exit_code (script rt env prior1) = exit_code (script rt env prior2)
   \<and> result_tally (script rt env (log_file_after prior (script rt env prior)))
       = result_tally (script rt env prior)"
  using script_tally by blast

section \<open>The tenant list setting\<close>

lemma load_tenants_unusable:
  assumes "env ''TENANTS'' = None \<or> (\<exists>msg. json_loads rt (getenv env ''TENANTS'') = JSONDecodeError msg)
           \<or> (\<exists>v. json_loads rt (getenv env ''TENANTS'') = Parsed v \<and> \<not> is_array v)"
  shows "\<exists>ev. load_tenants rt env = Inr ([], [(ERROR, ev)])"
proof (cases "unset (env ''TENANTS'')")
  case True
  then show ?thesis by (simp add: load_tenants_def)
next
  case False
  then have "env ''TENANTS'' \<noteq> None" by (auto simp: unset_def split: option.splits)
  with assms consider msg where "json_loads rt (getenv env ''TENANTS'') = JSONDecodeError msg"
    | v where "json_loads rt (getenv env ''TENANTS'') = Parsed v" and "\<not> is_array v"
    by auto
  then show ?thesis
  proof cases
    case 1
    with False show ?thesis by (simp add: load_tenants_def)
  next
    case 2
    with False show ?thesis
      by (cases v) (simp_all add: load_tenants_def is_array_def)
  qed
qed

lemma load_tenants_array:
  assumes "env ''TENANTS'' = Some s" and "s \<noteq> []" and "json_loads rt s = Parsed (JArr xs)"
  shows "load_tenants rt env = Inr (xs, [])"
  using assms by (simp add: load_tenants_def unset_def getenv_def)

lemma load_tenants_raises:
  assumes "env ''TENANTS'' = Some s" and "s \<noteq> []" and "json_loads rt s = OtherRaise e"
  shows "load_tenants rt env = Inl e"
  using assms by (simp add: load_tenants_def unset_def getenv_def)

lemma run_without_tenants:
  assumes "TENANTS cfg = []"
  shows "\<exists>st att. run_main rt cfg prior (initial_state l) = Completed st
           \<and> sessions st = [log_request cfg att]
           \<and> set l \<subseteq> set (logged st)
           \<and> tally st = (0, 0, [])"
proof -
  let ?st1 = "logging WARNING NoTenantsFound (initial_state l)"
  obtain att where t: "tally (send_log_email rt cfg prior ?st1) = tally ?st1"
    and s: "sessions (send_log_email rt cfg prior ?st1) = sessions ?st1 @ [log_request cfg att]"
    and lg: "set (logged ?st1) \<subseteq> set (logged (send_log_email rt cfg prior ?st1))"
    using send_log_email_effect by blast
  have run: "run_main rt cfg prior (initial_state l)
      = Completed (logging INFO ScriptCompleted (send_log_email rt cfg prior ?st1))"
    using assms by (simp add: run_main_def check_and_send_email_def send_emails_to_all_tenants_def)
  have "sessions (logging INFO ScriptCompleted (send_log_email rt cfg prior ?st1)) = [log_request cfg att]"
    using s by (simp add: logging_def initial_state_def)
  moreover have "set l \<subseteq> set (logged (logging INFO ScriptCompleted (send_log_email rt cfg prior ?st1)))"
    using lg by (auto simp: logging_def initial_state_def)
  moreover have "tally (logging INFO ScriptCompleted (send_log_email rt cfg prior ?st1)) = (0, 0, [])"
    using t by (simp add: logging_tally) (simp add: tally_def logging_def initial_state_def)
  ultimately show ?thesis using run by blast
qed

text \<open>
  What the script does with \<^verbatim>\<open>TENANTS\<close> when \<^verbatim>\<open>json.loads\<close> returns or raises
  \<^verbatim>\<open>json.JSONDecodeError\<close>, for a run that passes the checks of the SMTP settings. When
  \<^verbatim>\<open>TENANTS\<close> is absent, \<^verbatim>\<open>json.loads\<close> raises \<^verbatim>\<open>JSONDecodeError\<close>, or the value is not an array, the
  tenant list is empty and one error is logged; the script runs to its end (exit status 0)
  and opens exactly one session, that of the log email. When \<^verbatim>\<open>TENANTS\<close> is a non-empty text
  that parses to an array, that array is the tenant list the run works on.
\<close>

lemma tenants_setting_handled:
  assumes "missing_smtp_vars env = []" and "py_int (getenv env ''SMTP_PORT'') = Some p"
  shows "(env ''TENANTS'' = None
            \<or> (\<exists>msg. json_loads rt (getenv env ''TENANTS'') = JSONDecodeError msg)
            \<or> (\<exists>v. json_loads rt (getenv env ''TENANTS'') = Parsed v \<and> \<not> is_array v)
          \<longrightarrow> (\<exists>st att ev. script rt env prior = Completed st
                    \<and> exit_code (script rt env prior) = 0
                    \<and> (ERROR, ev) \<in> set (logged st)
                    \<and> TENANTS (load_config env p []) = []
                    \<and> sessions st = [log_request (load_config env p []) att]))
         \<and> (\<forall>s xs. env ''TENANTS'' = Some s \<and> s \<noteq> [] \<and> json_loads rt s = Parsed (JArr xs)
              \<longrightarrow> TENANTS (load_config env p xs) = xs
                  \<and> script rt env prior
                      = run_main rt (load_config env p xs) prior
                          (initial_state [(INFO, ScriptStarted), (INFO, LoadedTenants xs)]))"
proof (intro conjI impI allI)
  assume bad: "env ''TENANTS'' = None
            \<or> (\<exists>msg. json_loads rt (getenv env ''TENANTS'') = JSONDecodeError msg)
            \<or> (\<exists>v. json_loads rt (getenv env ''TENANTS'') = Parsed v \<and> \<not> is_array v)"
  from load_tenants_unusable [OF bad] obtain ev
    where l: "load_tenants rt env = Inr ([], [(ERROR, ev)])"
    by blast
  have e: "TENANTS (load_config env p []) = []"
    by (simp add: load_config_def)
  then obtain st att where run: "run_main rt (load_config env p []) prior
        (initial_state (startup_log ([], [(ERROR, ev)]))) = Completed st"
    and s: "sessions st = [log_request (load_config env p []) att]"
    and lg: "set (startup_log ([], [(ERROR, ev)])) \<subseteq> set (logged st)"
    using run_without_tenants by blast
  have sc: "script rt env prior = Completed st"
    using assms run by (simp add: script_def l)
  have "(ERROR, ev) \<in> set (startup_log ([], [(ERROR, ev)]))"
    by (simp add: startup_log_def)
  with lg have "(ERROR, ev) \<in> set (logged st)" by blast
  with sc s e show "\<exists>st att ev. script rt env prior = Completed st
                    \<and> exit_code (script rt env prior) = 0
                    \<and> (ERROR, ev) \<in> set (logged st)
                    \<and> TENANTS (load_config env p []) = []
                    \<and> sessions st = [log_request (load_config env p []) att]"
    by auto
next
  fix s xs
  assume a: "env ''TENANTS'' = Some s \<and> s \<noteq> [] \<and> json_loads rt s = Parsed (JArr xs)"
  then have lt: "load_tenants rt env = Inr (xs, [])"
    using load_tenants_array by blast
  show "TENANTS (load_config env p xs) = xs"
    by (simp add: load_config_def)
  show "script rt env prior
          = run_main rt (load_config env p xs) prior
              (initial_state [(INFO, ScriptStarted), (INFO, LoadedTenants xs)])"
    using assms by (simp add: script_def startup_log_def lt)
qed

lemma example_env_settings:
  "missing_smtp_vars (env_with_tenants s) = []"
  "py_int (getenv (env_with_tenants s) ''SMTP_PORT'') = Some 587"
  by (simp_all add: env_with_tenants_def example_env_def missing_smtp_vars_def unset_def
      getenv_def py_int_587)

lemma not_json_example:
  "\<exists>st att ev. script example_runtime (env_with_tenants ''not json'') [] = Completed st
      \<and> exit_code (script example_runtime (env_with_tenants ''not json'') []) = 0
      \<and> (ERROR, ev) \<in> set (logged st)
      \<and> sessions st = [log_request (load_config (env_with_tenants ''not json'') 587 []) att]"
proof -
  have "json_loads example_runtime (getenv (env_with_tenants ''not json'') ''TENANTS'')
          = JSONDecodeError ''Expecting value''"
    by (simp add: env_with_tenants_def getenv_def example_runtime_def)
  with tenants_setting_handled [OF example_env_settings, of "''not json''" example_runtime "[]"]
  show ?thesis by blast
qed

lemma deep_text_settings:
  "env_with_tenants deep_text ''TENANTS'' = Some deep_text" "deep_text \<noteq> []"
  by (simp_all add: env_with_tenants_def deep_text_def)

text \<open>
  Claim C4, at a text that is not JSON: \<^verbatim>\<open>TENANTS = '[' * 100000\<close>, with the five SMTP settings
  present and the port \<^verbatim>\<open>587\<close>. On it \<^verbatim>\<open>json.loads\<close> raises \<^verbatim>\<open>RecursionError\<close>, which is not a
  \<^verbatim>\<open>json.JSONDecodeError\<close>: line 69 does not catch it, no error is logged, the tenant list is
  never set, and the process ends with status 1 before \<^verbatim>\<open>check_and_send_email\<close> is reached, so
  without the log email.
\<close>

theorem unparsable_tenants_crash:
  "missing_smtp_vars (env_with_tenants deep_text) = []
   \<and> py_int (getenv (env_with_tenants deep_text) ''SMTP_PORT'') = Some 587
   \<and> load_tenants (rt\<lparr>json_loads := (\<lambda>s. OtherRaise (PyExc RecursionError msg))\<rparr>)
         (env_with_tenants deep_text) = Inl (PyExc RecursionError msg)
   \<and> script (rt\<lparr>json_loads := (\<lambda>s. OtherRaise (PyExc RecursionError msg))\<rparr>)
         (env_with_tenants deep_text) prior
       = ConfigCrash (PyExc RecursionError msg) [(INFO, ScriptStarted)]
   \<and> exit_code (script (rt\<lparr>json_loads := (\<lambda>s. OtherRaise (PyExc RecursionError msg))\<rparr>)
         (env_with_tenants deep_text) prior) = 1"
  using load_tenants_raises [of "env_with_tenants deep_text" deep_text
      "rt\<lparr>json_loads := (\<lambda>s. OtherRaise (PyExc RecursionError msg))\<rparr>" "PyExc RecursionError msg"]
  by (simp add: script_def example_env_settings deep_text_settings)

end
